theory Spec2Isabelle
  imports Complex_Main "HOL-Library.Sublist"
begin

section \<open>Python values, errors and name resolution\<close>

text \<open>
  The three source files are Python scripts.  Exceptions are values of \<open>py_error\<close>;
  a computation that may raise returns \<open>py_error + 'a\<close> with \<open>Inl\<close> the exception.
\<close>

datatype py_error =
    NameError string
  | AttributeError string
  | TypeError string
  | KeyError string
  | IndexError
  | ValueError string
  | AssertionError string
  | RuntimeError string
  | PyException string

text \<open>
  The Python objects the GUI handlers touch: \<open>None\<close>, booleans, strings, a Tk
  \<open>StringVar\<close> (read with \<open>.get()\<close>), dictionaries, and objects with an identity and
  instance attributes.  \<open>PGlobal n\<close> is the opaque value bound to the module-level name \<open>n\<close>.
\<close>

datatype pyval =
    PNone
  | PBool bool
  | PStr string
  | StringVar string
  | PDict "(string \<times> pyval) list"
  | PObject nat "(string \<times> pyval) list"
  | PGlobal string

fun truthy :: "pyval \<Rightarrow> bool" where
  "truthy PNone = False"
| "truthy (PBool b) = b"
| "truthy (PStr s) = (s \<noteq> [])"
| "truthy (PDict kvs) = (kvs \<noteq> [])"
| "truthy (StringVar s) = True"
| "truthy (PObject i attrs) = True"
| "truthy (PGlobal n) = True"

text \<open>\<open>obj.name\<close>: only objects carry attributes here; a missing one raises.\<close>

fun getattr :: "pyval \<Rightarrow> string \<Rightarrow> py_error + pyval" where
  "getattr (PObject i attrs) name =
     (case map_of attrs name of Some v \<Rightarrow> Inr v | None \<Rightarrow> Inl (AttributeError name))"
| "getattr v name = Inl (AttributeError name)"

fun setattr :: "pyval \<Rightarrow> string \<Rightarrow> pyval \<Rightarrow> pyval" where
  "setattr (PObject i attrs) name v = PObject i ((name, v) # filter (\<lambda>kv. fst kv \<noteq> name) attrs)"
| "setattr w name v = w"

text \<open>\<open>d[key]\<close> on a dictionary; subscripting \<open>None\<close> or any other value is a TypeError.\<close>

fun subscript :: "pyval \<Rightarrow> string \<Rightarrow> py_error + pyval" where
  "subscript (PDict kvs) key =
     (case map_of kvs key of Some v \<Rightarrow> Inr v | None \<Rightarrow> Inl (KeyError key))"
| "subscript v key = Inl (TypeError ''not subscriptable'')"

text \<open>\<open>v.get()\<close> as the handlers use it: reading a \<open>StringVar\<close>.\<close>

fun call_get :: "pyval \<Rightarrow> py_error + pyval" where
  "call_get (StringVar s) = Inr (PStr s)"
| "call_get v = Inl (AttributeError ''get'')"

text \<open>\<open>a == b\<close> between panel objects compares identities.\<close>

fun same_object :: "pyval \<Rightarrow> pyval \<Rightarrow> bool" where
  "same_object (PObject i a) (PObject j b) = (i = j)"
| "same_object v w = (v = w)"

section \<open>The vendor API as seen by the example scripts\<close>

text \<open>
  The example scripts talk to the instrument through \<open>zhinst\<close>, which is not part of the
  sources.  A run is modelled by the list of calls it issues, in order, together with its
  result; what the vendor side answers is a field of a session record.  Node values set
  with \<open>daq.set\<close> are Python ints and floats, both embedded in the reals; arithmetic on
  samples and waveforms is over the reals (IEEE rounding is not modelled), except for the
  scope time-out counter, whose loop count depends on the rounding, and for the overflow
  of a computed magnitude to \<open>+inf\<close>.
\<close>

text \<open>
  A binary64 value computed from finite operands: a finite number, embedded in the
  reals, or \<open>+inf\<close> when the result is beyond the binary64 range.  The largest finite
  binary64 number is \<open>2 ^ 1024 - 2 ^ 971\<close>; a result rounds to \<open>+inf\<close> from the midpoint
  \<open>2 ^ 1024 - 2 ^ 970\<close> between that number and \<open>2 ^ 1024\<close> on.  Below the midpoint the
  rounding of the finite result is not modelled.
\<close>

datatype np_float = Finite real | PosInf

definition binary64_scale :: real where
  "binary64_scale = 2 ^ 1022"

definition binary64_max :: real where
  "binary64_max = 4 * binary64_scale - binary64_scale / 2 ^ 51"

definition binary64_overflow :: real where
  "binary64_overflow = 4 * binary64_scale - binary64_scale / 2 ^ 52"

datatype api_call =
    CreateApiSession string nat
  | ApiServerVersionCheck
  | DaqSet "(string \<times> real) list"
  | DaqSync
  | DaqSetInt string int
  | DaqSetDouble string real
  | DaqVectorWrite string "real list"
  | DaqGetSample string
  | AwgModuleCreate
  | AwgSet string string
  | AwgExecute
  | AwgGetString string
  | AwgGet string
  | ScopeModuleCreate
  | ScopeSet string int
  | ScopeSubscribe string
  | ScopeExecute
  | ScopeProgress
  | ScopeRead
  | Sleep real
  | SaveTxt string "real list"
  | PrintOut string
  | PrintProgress nat real
  | PrintValue string real
  | PrintFloat string np_float
  | Plot

text \<open>\<open>'%d' % n\<close> and \<open>str(n)\<close> for a non-negative integer: its decimal digits.\<close>

fun str_nat :: "nat \<Rightarrow> string" where
  "str_nat n = (if n < 10 then [''0123456789'' ! n]
                else str_nat (n div 10) @ [''0123456789'' ! (n mod 10)])"

declare str_nat.simps [simp del]

text \<open>\<open>np.linspace(a, b, N)\<close> for \<open>N > 1\<close>: \<open>N\<close> points from \<open>a\<close> to \<open>b\<close>, both included.\<close>

definition np_linspace :: "real \<Rightarrow> real \<Rightarrow> nat \<Rightarrow> real list" where
  "np_linspace a b N = map (\<lambda>i. a + real i * ((b - a) / real (N - 1))) [0..<N]"

text \<open>An elementwise binary operation on two one-dimensional arrays, with NumPy's
  broadcasting: equal lengths, or one operand of length one.\<close>

definition np_broadcast :: "('a \<Rightarrow> 'b \<Rightarrow> 'c) \<Rightarrow> 'a list \<Rightarrow> 'b list \<Rightarrow> py_error + 'c list" where
  "np_broadcast f xs ys =
     (if length xs = length ys then Inr (map (\<lambda>(x, y). f x y) (zip xs ys))
      else if length xs = 1 then Inr (map (f (hd xs)) ys)
      else if length ys = 1 then Inr (map (\<lambda>x. f x (hd ys)) xs)
      else Inl (ValueError ''operands could not be broadcast together''))"

section \<open>WhiteLight.py: the desktop GUI shell\<close>

text \<open>
  The names bound at module level of \<open>WhiteLight.py\<close> when the event loop runs: the imports
  (lines 10--22), the three font constants, the class, \<open>width\<close> and \<open>height\<close> (declared
  \<open>global\<close> in \<open>__init__\<close>), \<open>Refresh\<close> and \<open>app\<close>.  A free name of a function body is looked
  up among the function's locals, then here; none of the names the handlers use that are
  missing from both is a Python builtin, so the lookup ends in a NameError.
\<close>

definition module_globals :: "string list" where
  "module_globals =
     [''tk'', ''ttk'', ''filedialog'', ''SP'', ''backend'', ''Path'', ''utils'', ''Save_Zi'',
      ''os'', ''LARGE_FONT'', ''NORM_FONT'', ''SMALL_FONT'', ''White_Light_Inteferometer'',
      ''width'', ''height'', ''Refresh'', ''app'']"

definition resolve :: "(string \<times> pyval) list \<Rightarrow> string \<Rightarrow> py_error + pyval" where
  "resolve locals name =
     (case map_of locals name of
        Some v \<Rightarrow> Inr v
      | None \<Rightarrow> if name \<in> set module_globals then Inr (PGlobal name) else Inl (NameError name))"

text \<open>What a handler does besides returning: dialogs, the vendor utility's file
  write and read, console output, and a re-scheduling request to the event loop.\<close>

datatype gui_effect =
    ShowInfo "string option" string string
  | SaveSettings pyval string string
  | LoadSettings pyval string string
  | Print string
  | After nat pyval pyval pyval

type_synonym gui_result = "(py_error + unit) \<times> gui_effect list"

definition os_sep :: string where
  "os_sep = ''/''"

text \<open>The nested helpers \<open>Save\<close> and \<open>Load\<close> (lines 127--130 and 147--150): the arguments of
  the vendor call are evaluated left to right, then the file is written or read.\<close>

definition settings_args :: "pyval \<Rightarrow> pyval \<Rightarrow> py_error + (pyval \<times> string \<times> string)" where
  "settings_args Dir ZI_Data =
     (case subscript ZI_Data ''DAQ'' of
        Inl e \<Rightarrow> Inl e
      | Inr daq \<Rightarrow>
     (case subscript ZI_Data ''Device_id'' of
        Inl e \<Rightarrow> Inl e
      | Inr dv \<Rightarrow>
     (case call_get dv of
        Inl e \<Rightarrow> Inl e
      | Inr dev \<Rightarrow>
     (case call_get Dir of
        Inl e \<Rightarrow> Inl e
      | Inr d \<Rightarrow>
     (case (dev, d) of
        (PStr device_id, PStr dir) \<Rightarrow> Inr (daq, device_id, dir @ os_sep @ ''_zi_settings.xml'')
      | _ \<Rightarrow> Inl (TypeError ''str''))))))"

definition Save :: "pyval \<Rightarrow> pyval \<Rightarrow> pyval \<Rightarrow> gui_result" where
  "Save Dir ZI_Data PI_Data =
     (case settings_args Dir ZI_Data of
        Inl e \<Rightarrow> (Inl e, [])
      | Inr (daq, dev, path) \<Rightarrow> (Inr (), [SaveSettings daq dev path]))"

definition Load :: "pyval \<Rightarrow> pyval \<Rightarrow> pyval \<Rightarrow> gui_result" where
  "Load Dir ZI_Data PI_Data =
     (case settings_args Dir ZI_Data of
        Inl e \<Rightarrow> (Inl e, [])
      | Inr (daq, dev, path) \<Rightarrow> (Inr (), [LoadSettings daq dev path]))"

text \<open>\<open>messabox.showinfo(...)\<close>: the name is resolved first, then the dialog is shown.\<close>

definition showinfo :: "(string \<times> pyval) list \<Rightarrow> string option \<Rightarrow> string \<Rightarrow> string \<Rightarrow> gui_result" where
  "showinfo locals icon title message =
     (case resolve locals ''messabox'' of
        Inl e \<Rightarrow> (Inl e, [])
      | Inr m \<Rightarrow> (Inr (), [ShowInfo icon title message]))"

definition then_do :: "gui_result \<Rightarrow> gui_result \<Rightarrow> gui_result" where
  "then_do r k =
     (case r of
        (Inl e, fx) \<Rightarrow> (Inl e, fx)
      | (Inr u, fx) \<Rightarrow> (case k of (res, fx') \<Rightarrow> (res, fx @ fx')))"

text \<open>
  \<open>Save_Setting(self, Folder, PI_Data, ZI_Data)\<close>, lines 125--143.  The guard on line 133 is
  \<open>PI_Data or ZI_Data is None\<close>, which Python reads as \<open>PI_Data or (ZI_Data is None)\<close>.
  The second guard reads the name \<open>Dir\<close>, which is a parameter of the nested \<open>Save\<close> only.
\<close>

definition Save_Setting_locals :: "pyval \<Rightarrow> pyval \<Rightarrow> pyval \<Rightarrow> pyval \<Rightarrow> (string \<times> pyval) list" where
  "Save_Setting_locals self Folder PI_Data ZI_Data =
     [(''self'', self), (''Folder'', Folder), (''PI_Data'', PI_Data), (''ZI_Data'', ZI_Data),
      (''Save'', PGlobal ''Save'')]"

definition Save_Setting :: "pyval \<Rightarrow> pyval \<Rightarrow> pyval \<Rightarrow> pyval \<Rightarrow> gui_result" where
  "Save_Setting self Folder PI_Data ZI_Data =
     (let locals = Save_Setting_locals self Folder PI_Data ZI_Data in
      if truthy PI_Data \<or> ZI_Data = PNone then
        showinfo locals (Some ''error'') ''WARNING'' ''One of the device is not connected''
      else
        (case resolve locals ''Dir'' of
           Inl e \<Rightarrow> (Inl e, [])
         | Inr Dir \<Rightarrow>
        (case call_get Dir of
           Inl e \<Rightarrow> (Inl e, [])
         | Inr d \<Rightarrow>
             if d = PStr [] then
               showinfo locals (Some ''error'') ''WARNING'' ''Please Choose a directory''
             else
               then_do (Save Folder ZI_Data PI_Data)
                 (showinfo locals None ''Information''
                    (''Settings as been saved to the'' @ ''desiered folder.'')))))"

definition Load_Setting_locals :: "pyval \<Rightarrow> pyval \<Rightarrow> pyval \<Rightarrow> pyval \<Rightarrow> (string \<times> pyval) list" where
  "Load_Setting_locals self Folder PI_Data ZI_Data =
     [(''self'', self), (''Folder'', Folder), (''PI_Data'', PI_Data), (''ZI_Data'', ZI_Data),
      (''Load'', PGlobal ''Load'')]"

definition Load_Setting :: "pyval \<Rightarrow> pyval \<Rightarrow> pyval \<Rightarrow> pyval \<Rightarrow> gui_result" where
  "Load_Setting self Folder PI_Data ZI_Data =
     (let locals = Load_Setting_locals self Folder PI_Data ZI_Data in
      if truthy PI_Data \<or> ZI_Data = PNone then
        showinfo locals (Some ''error'') ''WARNING'' ''One of the device is not connected''
      else
        (case resolve locals ''Dir'' of
           Inl e \<Rightarrow> (Inl e, [])
         | Inr Dir \<Rightarrow>
        (case call_get Dir of
           Inl e \<Rightarrow> (Inl e, [])
         | Inr d \<Rightarrow>
             if d = PStr [] then
               showinfo locals (Some ''error'') ''WARNING'' ''Please choose a directory''
             else
               then_do (Load Folder ZI_Data PI_Data)
                 (showinfo locals None ''Information''
                    (''Settings as been saved to the'' @ ''desiered folder.'')))))"

text \<open>\<open>Start(self, File_List, Dir, PI_Data, Zi_Data)\<close> and \<open>Stop_Measurement(self)\<close>.\<close>

definition Start :: "pyval \<Rightarrow> pyval \<Rightarrow> pyval \<Rightarrow> pyval \<Rightarrow> pyval \<Rightarrow> gui_result" where
  "Start self File_List Dir PI_Data Zi_Data = (Inr (), [Print ''hello''])"

definition Stop_Measurement :: "pyval \<Rightarrow> gui_result" where
  "Stop_Measurement self = (Inr (), [Print ''stop''])"

text \<open>
  A Python call binds the positional arguments to the parameters; a call with another
  number of arguments raises TypeError before the body runs.  \<open>nparams\<close> counts the
  parameters after \<open>self\<close>.
\<close>

definition bind_args :: "string \<Rightarrow> nat \<Rightarrow> pyval list \<Rightarrow> py_error + pyval list" where
  "bind_args fname nparams args =
     (if length args = nparams then Inr args else Inl (TypeError fname))"

definition py_call :: "string \<Rightarrow> nat \<Rightarrow> pyval list \<Rightarrow> (pyval list \<Rightarrow> gui_result) \<Rightarrow> gui_result" where
  "py_call fname nparams args body =
     (case bind_args fname nparams args of Inl e \<Rightarrow> (Inl e, []) | Inr xs \<Rightarrow> body xs)"

definition with_attr :: "pyval \<Rightarrow> string \<Rightarrow> (pyval \<Rightarrow> gui_result) \<Rightarrow> gui_result" where
  "with_attr obj name k = (case getattr obj name of Inl e \<Rightarrow> (Inl e, []) | Inr v \<Rightarrow> k v)"

text \<open>
  The four bindings of \<open>__init__\<close>, lines 101--118.  Each callback is a \<open>lambda\<close> with no
  parameter; its body calls a method of \<open>self\<close> with the arguments written there.
\<close>

datatype button = Start_button | OpBut | SvBut | Stop_button

fun bound_call :: "pyval \<Rightarrow> pyval \<Rightarrow> button \<Rightarrow> gui_result" where
  "bound_call self File_Dialog Start_button =
     with_attr self ''PI_Data'' (\<lambda>p. with_attr self ''Zi_Data'' (\<lambda>z.
       py_call ''Start'' 4 [p, z]
         (\<lambda>args. Start self (args ! 0) (args ! 1) (args ! 2) (args ! 3))))"
| "bound_call self File_Dialog OpBut =
     with_attr File_Dialog ''DirVar'' (\<lambda>d. with_attr self ''PI_Data'' (\<lambda>p.
       with_attr self ''Zi_Data'' (\<lambda>z.
         py_call ''Load_Setting'' 3 [d, p, z]
           (\<lambda>args. Load_Setting self (args ! 0) (args ! 1) (args ! 2)))))"
| "bound_call self File_Dialog SvBut =
     with_attr File_Dialog ''DirVar'' (\<lambda>d. with_attr File_Dialog ''File_InDir'' (\<lambda>f.
       with_attr self ''PI_Data'' (\<lambda>p. with_attr self ''Zi_Data'' (\<lambda>z.
         py_call ''Save_Setting'' 3 [d, f, p, z]
           (\<lambda>args. Save_Setting self (args ! 0) (args ! 1) (args ! 2))))))"
| "bound_call self File_Dialog Stop_button =
     with_attr self ''PI_Data'' (\<lambda>p. with_attr self ''Zi_Data'' (\<lambda>z.
       py_call ''Stop_Measurement'' 0 [p, z] (\<lambda>args. Stop_Measurement self)))"

definition binding :: "pyval \<Rightarrow> pyval \<Rightarrow> button \<Rightarrow> pyval list \<Rightarrow> gui_result" where
  "binding self File_Dialog b args =
     py_call ''<lambda>'' 0 args (\<lambda>xs. bound_call self File_Dialog b)"

text \<open>Tkinter calls a callback bound with \<open>bind\<close> with one argument, the event.\<close>

definition button_press :: "pyval \<Rightarrow> pyval \<Rightarrow> button \<Rightarrow> pyval \<Rightarrow> gui_result" where
  "button_press self File_Dialog b event = binding self File_Dialog b [event]"


text \<open>
  The object built by \<open>White_Light_Inteferometer.__init__\<close>: the instance attributes are the
  six that \<open>__init__\<close> assigns (lines 34, 35, 77--81), in that order; the four panels come
  from \<open>Sub_Programs.WL_backend\<close>, which is not part of the sources, and are parameters.
  The base class \<open>tk.Tk\<close> has no attribute called \<open>Frame\<close>, and its \<open>__getattr__\<close> hands
  unknown names to the Tcl interpreter object, which has none either.
\<close>

definition White_Light_Inteferometer_init :: "pyval \<Rightarrow> pyval \<Rightarrow> pyval \<Rightarrow> pyval \<Rightarrow> pyval" where
  "White_Light_Inteferometer_init ZiFrame frame PI_Control ZI_Control =
     setattr (setattr (setattr (setattr (setattr (setattr (PObject 0 [])
       ''PI_Data'' PNone) ''Zi_Data'' PNone) ''ZiFrame'' ZiFrame) ''frame'' frame)
       ''PI_Control'' PI_Control) ''ZI_Control'' ZI_Control"

type_synonym refresh_result = "(py_error + unit) \<times> gui_effect list \<times> pyval"

text \<open>
  \<open>Refresh(app, Frame, receiver)\<close>, lines 168--179.  The result carries the application
  object after the call.  Line 169 reads the attribute \<open>app.Frame\<close>, not the parameter
  \<open>Frame\<close>.  \<open>Show_device\<close> (a method of the PI control panel) and the call of the ZI
  settings panel belong to the missing backend and are parameters.
\<close>

definition Refresh_PI :: "(pyval \<Rightarrow> py_error + pyval) \<Rightarrow> pyval \<Rightarrow> pyval \<Rightarrow> refresh_result" where
  "Refresh_PI Show_device app fr =
     (case getattr fr ''Devices_connected'' of
        Inl e \<Rightarrow> (Inl e, [], app)
      | Inr dc \<Rightarrow>
     (case getattr app ''PI_Control'' of
        Inl e \<Rightarrow> (Inl e, [], app)
      | Inr ctl \<Rightarrow>
         (let ctl1 = setattr ctl ''Devices'' dc;
              app1 = setattr app ''PI_Control'' ctl1
          in case Show_device ctl1 of
               Inl e \<Rightarrow> (Inl e, [], app1)
             | Inr d \<Rightarrow> (Inr (), [], setattr app1 ''PI_Data'' d))))"

definition Refresh_ZI ::
  "(pyval \<Rightarrow> pyval \<Rightarrow> pyval \<Rightarrow> pyval \<Rightarrow> py_error + pyval) \<Rightarrow> pyval \<Rightarrow> pyval \<Rightarrow> refresh_result" where
  "Refresh_ZI ZI_Control_call app zf =
     (case getattr app ''ZI_Control'' of
        Inl e \<Rightarrow> (Inl e, [], app)
      | Inr zc \<Rightarrow>
     (case getattr zf ''DAQ'' of
        Inl e \<Rightarrow> (Inl e, [], app)
      | Inr daq \<Rightarrow>
     (case getattr zf ''device'' of
        Inl e \<Rightarrow> (Inl e, [], app)
      | Inr dev \<Rightarrow>
     (case getattr zf ''proprieties'' of
        Inl e \<Rightarrow> (Inl e, [], app)
      | Inr prop \<Rightarrow>
     (case ZI_Control_call zc daq dev prop of
        Inl e \<Rightarrow> (Inl e, [], app)
      | Inr zc1 \<Rightarrow>
         (let app1 = setattr app ''ZI_Control'' zc1
          in case getattr zc1 ''Zi_Setting_List'' of
               Inl e \<Rightarrow> (Inl e, [], app1)
             | Inr l \<Rightarrow> (Inr (), [], setattr app1 ''Zi_Data'' l)))))))"

definition Refresh ::
  "(pyval \<Rightarrow> py_error + pyval) \<Rightarrow> (pyval \<Rightarrow> pyval \<Rightarrow> pyval \<Rightarrow> pyval \<Rightarrow> py_error + pyval) \<Rightarrow>
   pyval \<Rightarrow> pyval \<Rightarrow> pyval \<Rightarrow> refresh_result" where
  "Refresh Show_device ZI_Control_call app Frame receiver =
     (case getattr app ''Frame'' of
        Inl e \<Rightarrow> (Inl e, [], app)
      | Inr F \<Rightarrow>
     (case getattr F ''connected'' of
        Inl e \<Rightarrow> (Inl e, [], app)
      | Inr c \<Rightarrow>
         if c = PBool False then (Inr (), [After 1000 app Frame receiver], app)
         else
           (case getattr app ''frame'' of
              Inl e \<Rightarrow> (Inl e, [], app)
            | Inr fr \<Rightarrow>
               if same_object F fr then Refresh_PI Show_device app fr
               else
                 (case getattr app ''ZiFrame'' of
                    Inl e \<Rightarrow> (Inl e, [], app)
                  | Inr zf \<Rightarrow>
                     if same_object F zf then Refresh_ZI ZI_Control_call app zf
                     else (Inr (), [], app)))))"

text \<open>
  The connect buttons, lines 184--187: \<open>lambda x : Refresh(app, frame, PI_Control)\<close> and
  \<open>lambda x : Refresh(app, ZiFrame, ZI_Control)\<close>.  The arguments are free names of the
  lambda, looked up at module level when the button is pressed.
\<close>

definition CButton_binding ::
  "string \<Rightarrow> string \<Rightarrow> (pyval \<Rightarrow> pyval \<Rightarrow> pyval \<Rightarrow> refresh_result) \<Rightarrow> pyval \<Rightarrow> pyval list \<Rightarrow>
   refresh_result" where
  "CButton_binding Frame_name receiver_name refresh app args =
     (case bind_args ''<lambda>'' 1 args of
        Inl e \<Rightarrow> (Inl e, [], app)
      | Inr xs \<Rightarrow>
     (case resolve [(''x'', xs ! 0)] ''Refresh'' of
        Inl e \<Rightarrow> (Inl e, [], app)
      | Inr f \<Rightarrow>
     (case resolve [(''x'', xs ! 0)] ''app'' of
        Inl e \<Rightarrow> (Inl e, [], app)
      | Inr a \<Rightarrow>
     (case resolve [(''x'', xs ! 0)] Frame_name of
        Inl e \<Rightarrow> (Inl e, [], app)
      | Inr F \<Rightarrow>
     (case resolve [(''x'', xs ! 0)] receiver_name of
        Inl e \<Rightarrow> (Inl e, [], app)
      | Inr r \<Rightarrow> refresh app F r)))))"

definition frame_CButton_press ::
  "(pyval \<Rightarrow> pyval \<Rightarrow> pyval \<Rightarrow> refresh_result) \<Rightarrow> pyval \<Rightarrow> pyval \<Rightarrow> refresh_result" where
  "frame_CButton_press refresh app event =
     CButton_binding ''frame'' ''PI_Control'' refresh app [event]"

definition ZiFrame_CButton_press ::
  "(pyval \<Rightarrow> pyval \<Rightarrow> pyval \<Rightarrow> refresh_result) \<Rightarrow> pyval \<Rightarrow> pyval \<Rightarrow> refresh_result" where
  "ZiFrame_CButton_press refresh app event =
     CButton_binding ''ZiFrame'' ''ZI_Control'' refresh app [event]"

section \<open>example_connect_config.py\<close>

text \<open>
  What the vendor side answers during one run: the result of
  \<open>zhinst.utils.create_api_session\<close> (an exception, or the device name with
  \<open>props['options']\<close> and \<open>props['devicetype']\<close>), of the version check, of
  \<open>default_output_mixer_channel\<close>, and the dictionary of arrays that \<open>getSample\<close> returns.
  The fields of the sample are finite binary64 numbers, embedded in the reals.
\<close>

record cc_session =
  cc_api_session :: "py_error + (string \<times> string list \<times> string)"
  cc_version_check :: "py_error option"
  cc_mixer_channel :: "py_error + nat"
  cc_sample :: "string \<rightharpoonup> real list"

definition cc_general_setting :: "string \<Rightarrow> string list \<Rightarrow> (string \<times> real) list" where
  "cc_general_setting device options =
     [(''/'' @ device @ ''/demods/*/enable'', 0),
      (''/'' @ device @ ''/demods/*/trigger'', 0),
      (''/'' @ device @ ''/sigouts/*/enables/*'', 0),
      (''/'' @ device @ ''/scopes/*/enable'', 0)]
     @ (if ''IA'' \<in> set options then [(''/'' @ device @ ''/imps/*/enable'', 0)] else [])"

definition cc_exp_setting :: "string \<Rightarrow> string \<Rightarrow> nat \<Rightarrow> real \<Rightarrow> (string \<times> real) list" where
  "cc_exp_setting device devicetype out_mixer_channel amplitude =
     (let out_channel = 0; in_channel = 0; demod_index = 0; osc_index = 0;
          demod_rate = 10000; time_constant = 1 / 1000000
      in
      [(''/'' @ device @ ''/sigins/'' @ str_nat in_channel @ ''/ac'', 0),
       (''/'' @ device @ ''/sigins/'' @ str_nat in_channel @ ''/range'', 2 * amplitude),
       (''/'' @ device @ ''/demods/'' @ str_nat demod_index @ ''/enable'', 1),
       (''/'' @ device @ ''/demods/'' @ str_nat demod_index @ ''/rate'', demod_rate),
       (''/'' @ device @ ''/demods/'' @ str_nat demod_index @ ''/adcselect'', real in_channel),
       (''/'' @ device @ ''/demods/'' @ str_nat demod_index @ ''/order'', 4),
       (''/'' @ device @ ''/demods/'' @ str_nat demod_index @ ''/timeconstant'', time_constant),
       (''/'' @ device @ ''/demods/'' @ str_nat demod_index @ ''/oscselect'', real osc_index),
       (''/'' @ device @ ''/demods/'' @ str_nat demod_index @ ''/harmonic'', 1),
       (''/'' @ device @ ''/oscs/'' @ str_nat osc_index @ ''/freq'', 400000),
       (''/'' @ device @ ''/sigouts/'' @ str_nat out_channel @ ''/on'', 1),
       (''/'' @ device @ ''/sigouts/'' @ str_nat out_channel @ ''/enables/''
          @ str_nat out_mixer_channel, 1),
       (''/'' @ device @ ''/sigouts/'' @ str_nat out_channel @ ''/range'', 1),
       (''/'' @ device @ ''/sigouts/'' @ str_nat out_channel @ ''/amplitudes/''
          @ str_nat out_mixer_channel, amplitude)]
      @ (if prefix ''HF2'' devicetype
         then [(''/'' @ device @ ''/sigins/'' @ str_nat in_channel @ ''/diff'', 0),
               (''/'' @ device @ ''/sigouts/'' @ str_nat out_channel @ ''/add'', 0)]
         else []))"

text \<open>
  Lines 131--132: \<open>np.abs\<close> and \<open>np.angle\<close> of the complex array
  \<open>sample['x'] + 1j*sample['y']\<close>.  \<open>np.abs\<close> of a complex number is its modulus, computed
  without intermediate overflow; the result is a binary64 number, hence \<open>+inf\<close> when the
  modulus is beyond the binary64 range.  \<open>np.angle\<close> is the argument in \<open>(-pi, pi]\<close>, with
  the angle of zero being zero; it is always finite.
\<close>

definition complex_sample :: "(string \<rightharpoonup> real list) \<Rightarrow> py_error + complex list" where
  "complex_sample sample =
     (case sample ''x'' of
        None \<Rightarrow> Inl (KeyError ''x'')
      | Some xs \<Rightarrow>
     (case sample ''y'' of
        None \<Rightarrow> Inl (KeyError ''y'')
      | Some ys \<Rightarrow> np_broadcast (\<lambda>x y. complex_of_real x + \<i> * complex_of_real y) xs ys))"

definition np_abs :: "complex \<Rightarrow> np_float" where
  "np_abs z = (if binary64_overflow \<le> cmod z then PosInf else Finite (cmod z))"

definition np_angle :: "complex \<Rightarrow> real" where
  "np_angle z = Arg z"

text \<open>
  The dictionary that is returned holds the fields of the sample and the two computed
  arrays.  Line 132 reads \<open>sample['x']\<close> and \<open>sample['y']\<close> again after \<open>sample['R']\<close> has been
  assigned; the assignment leaves these two fields as they were.
\<close>

definition add_R_phi ::
  "(string \<rightharpoonup> real list) \<Rightarrow> api_call list \<times> (py_error + (string \<rightharpoonup> np_float list))" where
  "add_R_phi sample =
     (case complex_sample sample of
        Inl e \<Rightarrow> ([], Inl e)
      | Inr zs \<Rightarrow>
         (let sample1 = (map_option (map Finite) \<circ> sample)(''R'' \<mapsto> map np_abs zs) in
          case complex_sample sample of
            Inl e \<Rightarrow> ([], Inl e)
          | Inr zs1 \<Rightarrow>
             (let sample2 = sample1(''phi'' \<mapsto> map (\<lambda>z. Finite (np_angle z)) zs1) in
              case sample2 ''R'' of
                None \<Rightarrow> ([], Inl (KeyError ''R''))
              | Some R \<Rightarrow>
                 if R = [] then ([], Inl IndexError)
                 else ([PrintFloat ''Measured RMS amplitude is {:.3e} V.'' (R ! 0)],
                       Inr sample2))))"

text \<open>\<open>run_example(device_id, amplitude)\<close> of \<open>example_connect_config.py\<close>.\<close>

definition run_example_connect_config ::
  "string \<Rightarrow> real \<Rightarrow> cc_session \<Rightarrow> api_call list \<times> (py_error + (string \<rightharpoonup> np_float list))" where
  "run_example_connect_config device_id amplitude s =
     (let apilevel_example = 6 in
      case cc_api_session s of
        Inl e \<Rightarrow> ([CreateApiSession device_id apilevel_example], Inl e)
      | Inr (device, options, devicetype) \<Rightarrow>
     (case cc_version_check s of
        Some e \<Rightarrow> ([CreateApiSession device_id apilevel_example, ApiServerVersionCheck], Inl e)
      | None \<Rightarrow>
         (let tr1 = [CreateApiSession device_id apilevel_example, ApiServerVersionCheck,
                     DaqSet (cc_general_setting device options), DaqSync]
          in
          case cc_mixer_channel s of
            Inl e \<Rightarrow> (tr1, Inl e)
          | Inr out_mixer_channel \<Rightarrow>
             (let demod_index = 0; time_constant = 1 / 1000000;
                  tr2 = tr1 @
                    [DaqSet (cc_exp_setting device devicetype out_mixer_channel amplitude),
                     Sleep (10 * time_constant),
                     DaqSync,
                     DaqGetSample (''/'' @ device @ ''/demods/'' @ str_nat demod_index @ ''/sample'')]
              in case add_R_phi (cc_sample s) of (tr3, res) \<Rightarrow> (tr2 @ tr3, res)))))"


text \<open>A session on which the run succeeds: one sample point with \<open>x = 1\<close>, \<open>y = 0\<close>.\<close>

definition cc_session_example :: cc_session where
  "cc_session_example =
     \<lparr>cc_api_session = Inr (''dev2006'', [], ''UHFLI''), cc_version_check = None,
      cc_mixer_channel = Inr 3, cc_sample = [''x'' \<mapsto> [1], ''y'' \<mapsto> [0]]\<rparr>"



section \<open>example_awg.py\<close>

subsection \<open>The sequencer program and its placeholders\<close>

text \<open>
  \<open>s.replace(old, new)\<close>: every non-overlapping occurrence of \<open>old\<close> in \<open>s\<close>, scanning from
  the left, is replaced by \<open>new\<close>.  With an empty \<open>old\<close>, Python inserts \<open>new\<close> before every
  character and at the end.
\<close>

fun str_replace :: "string \<Rightarrow> string \<Rightarrow> string \<Rightarrow> string" where
  "str_replace old new [] = []"
| "str_replace old new (c # cs) =
     (if prefix old (c # cs) then new @ str_replace old new (drop (length old - 1) cs)
      else c # str_replace old new cs)"

definition py_replace :: "string \<Rightarrow> string \<Rightarrow> string \<Rightarrow> string" where
  "py_replace s old new =
     (if old = [] then new @ concat (map (\<lambda>c. c # new) s) else str_replace old new s)"

text \<open>\<open>sep.join(xs)\<close>.\<close>

fun str_join :: "string \<Rightarrow> string list \<Rightarrow> string" where
  "str_join sep [] = []"
| "str_join sep [x] = x"
| "str_join sep (x # y # ys) = x @ sep @ str_join sep (y # ys)"

text \<open>An occurrence of \<open>old\<close> in \<open>s\<close>, decided from the left.\<close>

fun occurs_in :: "string \<Rightarrow> string \<Rightarrow> bool" where
  "occurs_in old [] = (old = [])"
| "occurs_in old (c # cs) = (prefix old (c # cs) \<or> occurs_in old cs)"

definition AWG_N :: nat where
  "AWG_N = 2000"

text \<open>The text of lines 129--142: a newline, then twelve lines, each ended by a newline.\<close>

definition awg_program_template :: string where
  "awg_program_template =
     concat (map (\<lambda>l. l @ [CHR 0x0A])
       ['''',
        ''const AWG_N = _c1_;'',
        ''wave w0 = '' @ [CHR 0x22] @ ''wave0'' @ [CHR 0x22] @ '';'',
        ''wave w1 = gauss(AWG_N, AWG_N/2, AWG_N/20);'',
        ''wave w2 = vect(_w2_);'',
        ''wave w3 = zeros(AWG_N);'',
        ''while(getUserReg(0) == 0);'',
        ''setTrigger(1);'',
        ''setTrigger(0);'',
        ''playWave(w0);'',
        ''playWave(w1);'',
        ''playWave(w2);'',
        ''playWave(w3);''])"

subsection \<open>The four waveforms\<close>

text \<open>\<open>np.blackman(M)\<close>, \<open>np.sinc\<close> and the waveforms of lines 145--152 and 202.\<close>

definition np_blackman :: "nat \<Rightarrow> real list" where
  "np_blackman M =
     (if M = 1 then [1]
      else map (\<lambda>n. 42 / 100 - (1 / 2) * cos (2 * pi * real n / real (M - 1))
                      + (8 / 100) * cos (4 * pi * real n / real (M - 1))) [0..<M])"

definition np_sinc :: "real \<Rightarrow> real" where
  "np_sinc x = (if x = 0 then 1 else sin (pi * x) / (pi * x))"

definition waveform_0 :: "real list" where
  "waveform_0 = map (\<lambda>v. - 1 * v) (np_blackman AWG_N)"

definition waveform_1 :: "real list" where
  "waveform_1 =
     (let width = real AWG_N / 20
      in map (\<lambda>v. exp (- (v\<^sup>2) / (2 * width\<^sup>2)))
           (np_linspace (- (real AWG_N / 2)) (real AWG_N / 2) AWG_N))"

definition waveform_2 :: "real list" where
  "waveform_2 = map sin (np_linspace 0 (2 * pi) AWG_N)"

definition waveform_3 :: "real list" where
  "waveform_3 = map np_sinc (np_linspace (- 6 * pi) (6 * pi) AWG_N)"

text \<open>
  Lines 156 and 158.  How Python prints a float (\<open>str(x)\<close>) is not defined by this
  repository; it is the parameter \<open>str_float\<close>.
\<close>

definition awg_program :: "(real \<Rightarrow> string) \<Rightarrow> string" where
  "awg_program str_float =
     py_replace
       (py_replace awg_program_template ''_w2_'' (str_join '','' (map str_float waveform_2)))
       ''_c1_'' (str_nat AWG_N)"

subsection \<open>The scope time-out counter in binary64\<close>

text \<open>
  \<open>local_timeout\<close> is a Python float.  A finite binary64 number is modelled by a pair
  \<open>(m, e)\<close> of integers denoting \<open>m * 2 ^ e\<close>.  Subtraction computes the exact difference
  and rounds it to 53 significant bits, ties to even; the exponent range plays no role
  for the values the counter takes.
\<close>

type_synonym double = "int \<times> int"

definition double_val :: "double \<Rightarrow> real" where
  "double_val d = (case d of (m, e) \<Rightarrow> real_of_int m * 2 powr real_of_int e)"

fun bitlen :: "nat \<Rightarrow> nat" where
  "bitlen n = (if n = 0 then 0 else Suc (bitlen (n div 2)))"

declare bitlen.simps [simp del]

definition round_to_53 :: "double \<Rightarrow> double" where
  "round_to_53 d =
     (case d of (m, e) \<Rightarrow>
        let n = bitlen (nat \<bar>m\<bar>) in
        if n \<le> 53 then (m, e)
        else
          let sh = n - 53;
              q = \<bar>m\<bar> div 2 ^ sh;
              r = \<bar>m\<bar> mod 2 ^ sh;
              h = 2 ^ (sh - 1);
              q' = (if h < r \<or> (r = h \<and> odd q) then q + 1 else q)
          in (sgn m * q', e + int sh))"

definition double_sub :: "double \<Rightarrow> double \<Rightarrow> double" where
  "double_sub a b =
     (case a of (m1, e1) \<Rightarrow> case b of (m2, e2) \<Rightarrow>
        let e = min e1 e2
        in round_to_53 (m1 * 2 ^ nat (e1 - e) - m2 * 2 ^ nat (e2 - e), e))"

definition double_pos :: "double \<Rightarrow> bool" where
  "double_pos d = (0 < fst d)"

text \<open>The literals \<open>2.0\<close> and \<open>0.1\<close>; the latter is the binary64 number nearest to one tenth.\<close>

definition double_two :: double where
  "double_two = (1, 1)"

definition double_tenth :: double where
  "double_tenth = (3602879701896397, - 55)"

subsection \<open>The session and the three polling loops\<close>

record scope_wave =
  channelenable :: "bool list"
  wave :: "real list list"
  channelscaling :: "real list"
  channeloffset :: "real list"
  dt :: real
  timestamp :: real
  triggertimestamp :: real

text \<open>
  What the vendor side answers during one run.  The \<open>k\<close>-th read of a polled node
  (counting from 0) returns the value of the corresponding function at \<open>k\<close>.
\<close>

record awg_session =
  awg_api_session :: "py_error + (string \<times> string list)"
  awg_version_check :: "py_error option"
  awg_directory :: string
  wave_dir_isdir :: bool
  compiler_status :: "nat \<Rightarrow> int"
  compiler_statusstring :: "nat \<Rightarrow> string"
  awg_progress :: "nat \<Rightarrow> real"
  scope_progress :: "nat \<Rightarrow> real"
  scope_data_read :: "string \<rightharpoonup> scope_wave list list"

text \<open>
  Lines 181--182: \<open>while status == -1: sleep(0.1)\<close>, starting at read \<open>k\<close>.  The result is
  the index of the read that ends the loop; the loop need not end.
\<close>

partial_function (option) compile_wait :: "(nat \<Rightarrow> int) \<Rightarrow> nat \<Rightarrow> nat option" where
  "compile_wait status k =
     (if status k = - 1 then compile_wait status (Suc k) else Some k)"

text \<open>
  Lines 195--199: the upload loop.  Iteration \<open>i\<close> reads the progress node twice, once in
  the loop condition (read \<open>2 * i\<close>) and once to print it (read \<open>2 * i + 1\<close>).  The result is
  the number of iterations; nothing bounds it.
\<close>

partial_function (option) upload_wait :: "(nat \<Rightarrow> real) \<Rightarrow> nat \<Rightarrow> nat option" where
  "upload_wait progress i =
     (if progress (2 * i) < 1 then upload_wait progress (Suc i) else Some i)"

text \<open>
  Lines 275--278: the scope loop, with the counter \<open>local_timeout\<close>.  The result is the
  number of iterations.
\<close>

partial_function (option) scope_wait :: "(nat \<Rightarrow> real) \<Rightarrow> nat \<Rightarrow> double \<Rightarrow> nat option" where
  "scope_wait progress k local_timeout =
     (if progress k < 1 \<and> double_pos local_timeout
      then scope_wait progress (Suc k) (double_sub local_timeout double_tenth)
      else Some k)"

definition compile_wait_trace :: "nat \<Rightarrow> api_call list" where
  "compile_wait_trace k =
     concat (replicate k [AwgGet ''awgModule/compiler/status'', Sleep (1 / 10)])
     @ [AwgGet ''awgModule/compiler/status'']"

definition upload_wait_trace :: "(nat \<Rightarrow> real) \<Rightarrow> nat \<Rightarrow> api_call list" where
  "upload_wait_trace progress i =
     concat (map (\<lambda>j. [AwgGet ''awgModule/progress'', AwgGet ''awgModule/progress'',
                        PrintProgress j (progress (2 * j + 1)), Sleep (1 / 2)]) [0..<i])
     @ [AwgGet ''awgModule/progress'']"

definition scope_wait_trace :: "nat \<Rightarrow> api_call list" where
  "scope_wait_trace k = concat (replicate k [ScopeProgress, Sleep (1 / 10)]) @ [ScopeProgress]"

subsection \<open>Configuration\<close>

definition awg_general_setting :: "string \<Rightarrow> string list \<Rightarrow> (string \<times> real) list" where
  "awg_general_setting device options =
     [(''/'' @ device @ ''/demods/*/enable'', 0),
      (''/'' @ device @ ''/demods/*/trigger'', 0),
      (''/'' @ device @ ''/sigouts/*/enables/*'', 0),
      (''/'' @ device @ ''/scopes/*/enable'', 0)]
     @ (if ''IA'' \<in> set options then [(''/'' @ device @ ''/imps/*/enable'', 0)] else [])"

definition awg_amplitude :: real where
  "awg_amplitude = 1"

definition awg_exp_setting :: "string \<Rightarrow> (string \<times> real) list" where
  "awg_exp_setting device =
     (let out_channel = 0; out_mixer_channel = 3; in_channel = 0; osc_index = 0;
          awg_channel = 0; frequency = 1000000
      in
      [(''/'' @ device @ ''/sigins/'' @ str_nat in_channel @ ''/imp50'', 1),
       (''/'' @ device @ ''/sigins/'' @ str_nat in_channel @ ''/ac'', 0),
       (''/'' @ device @ ''/sigins/'' @ str_nat in_channel @ ''/diff'', 0),
       (''/'' @ device @ ''/sigins/'' @ str_nat in_channel @ ''/range'', 1),
       (''/'' @ device @ ''/oscs/'' @ str_nat osc_index @ ''/freq'', frequency),
       (''/'' @ device @ ''/sigouts/'' @ str_nat out_channel @ ''/on'', 1),
       (''/'' @ device @ ''/sigouts/'' @ str_nat out_channel @ ''/range'', 1),
       (''/'' @ device @ ''/sigouts/'' @ str_nat out_channel @ ''/enables/''
          @ str_nat out_mixer_channel, 1),
       (''/'' @ device @ ''/sigouts/'' @ str_nat out_channel @ ''/amplitudes/*'', 0),
       (''/'' @ device @ ''/awgs/0/outputs/'' @ str_nat awg_channel @ ''/amplitude'', awg_amplitude),
       (''/'' @ device @ ''/awgs/0/outputs/0/mode'', 0),
       (''/'' @ device @ ''/awgs/0/time'', 0),
       (''/'' @ device @ ''/awgs/0/userregs/0'', 0)])"

text \<open>\<open>os.path.join\<close> on POSIX, for a relative second component.\<close>

definition os_path_join :: "string \<Rightarrow> string \<Rightarrow> string" where
  "os_path_join a b = (if a = [] \<or> last a = CHR ''/'' then a @ b else a @ ''/'' @ b)"

definition wave_dir :: "string \<Rightarrow> string" where
  "wave_dir data_dir = os_path_join (os_path_join data_dir ''awg'') ''waves''"

text \<open>
  Lines 63--178: from the creation of the session to the submission of the sequencer
  program.  The result is the device name, or the exception raised.
\<close>

definition awg_setup ::
  "(real \<Rightarrow> string) \<Rightarrow> string \<Rightarrow> awg_session \<Rightarrow> api_call list \<times> (py_error + string)" where
  "awg_setup str_float device_id s =
     (let apilevel_example = 6 in
      case awg_api_session s of
        Inl e \<Rightarrow> ([CreateApiSession device_id apilevel_example], Inl e)
      | Inr (device, options) \<Rightarrow>
     (case awg_version_check s of
        Some e \<Rightarrow> ([CreateApiSession device_id apilevel_example, ApiServerVersionCheck], Inl e)
      | None \<Rightarrow>
         (let tr = [CreateApiSession device_id apilevel_example, ApiServerVersionCheck,
                    DaqSet (awg_general_setting device options), DaqSync,
                    DaqSet (awg_exp_setting device), DaqSync,
                    AwgModuleCreate, AwgSet ''awgModule/device'' device, AwgExecute,
                    AwgGetString ''awgModule/directory'']
          in
          if \<not> wave_dir_isdir s then
            (tr, Inl (PyException (''AWG module wave directory '' @ wave_dir (awg_directory s)
                        @ '' does not exist or is not a directory'')))
          else
            (tr @ [SaveTxt (os_path_join (wave_dir (awg_directory s)) ''wave0.csv'') waveform_0,
                   AwgSet ''awgModule/compiler/sourcestring'' (awg_program str_float)],
             Inr device))))"

text \<open>
  Lines 181--199.  After the wait loop has ended at read \<open>k\<close>, the status node is read
  again for each of the three comparisons (reads \<open>k + 1\<close>, \<open>k + 2\<close>, \<open>k + 3\<close>).
\<close>

definition awg_compile :: "awg_session \<Rightarrow> (api_call list \<times> (py_error + unit)) option" where
  "awg_compile s =
     (case compile_wait (compiler_status s) 0 of
        None \<Rightarrow> None
      | Some k \<Rightarrow>
         if compiler_status s (k + 1) = 1 then
           Some (compile_wait_trace k
                   @ [AwgGet ''awgModule/compiler/status'',
                      AwgGet ''awgModule/compiler/statusstring''],
                 Inl (PyException (compiler_statusstring s 0)))
         else
           (let tr0 = [AwgGet ''awgModule/compiler/status''] @
                  (if compiler_status s (k + 2) = 0
                   then [PrintOut (''Compilation successful with no warnings, ''
                                   @ ''will upload the program to the instrument.'')]
                   else []);
                tr2 = [AwgGet ''awgModule/compiler/status''] @
                  (if compiler_status s (k + 3) = 2
                   then [PrintOut (''Compilation successful with warnings, ''
                                   @ ''will upload the program to the instrument.''),
                         AwgGet ''awgModule/compiler/statusstring'',
                         PrintOut (''Compiler warning: '' @ compiler_statusstring s 0)]
                   else [])
            in case upload_wait (awg_progress s) 0 of
                 None \<Rightarrow> None
               | Some i \<Rightarrow>
                   Some (compile_wait_trace k @ [AwgGet ''awgModule/compiler/status'']
                           @ tr0 @ tr2 @ upload_wait_trace (awg_progress s) i,
                         Inr ())))"

text \<open>Lines 207--272: the waveform replacement and the scope configuration.\<close>

definition awg_replace_waveform :: "string \<Rightarrow> api_call list" where
  "awg_replace_waveform device =
     (let index = 2 in
      [DaqSetInt (''/'' @ device @ ''/awgs/0/waveform/index'') index,
       DaqSync,
       DaqVectorWrite (''/'' @ device @ ''/awgs/0/waveform/data'') waveform_3])"

definition awg_scope_config :: "string \<Rightarrow> api_call list" where
  "awg_scope_config device =
     (let in_channel = 0 in
      [DaqSetInt (''/'' @ device @ ''/scopes/0/channels/0/inputselect'') in_channel,
       DaqSetInt (''/'' @ device @ ''/scopes/0/time'') 0,
       DaqSetInt (''/'' @ device @ ''/scopes/0/trigenable'') 1,
       DaqSetInt (''/'' @ device @ ''/scopes/0/enable'') 0,
       DaqSetInt (''/'' @ device @ ''/scopes/0/length'') 16836,
       DaqSetInt (''/'' @ device @ ''/scopes/0/trigenable'') 1,
       DaqSetInt (''/'' @ device @ ''/scopes/0/trigchannel'') 192,
       DaqSetInt (''/'' @ device @ ''/scopes/0/trigslope'') 1,
       DaqSetDouble (''/'' @ device @ ''/scopes/0/trighysteresis/mode'') 0,
       DaqSetDouble (''/'' @ device @ ''/scopes/0/trighysteresis/relative'') (25 / 1000),
       DaqSetDouble (''/'' @ device @ ''/scopes/0/trigdelay'') 0,
       DaqSetDouble (''/'' @ device @ ''/scopes/0/trigholdoff'') (25 / 1000),
       ScopeModuleCreate,
       ScopeSet ''scopeModule/mode'' 0,
       ScopeSubscribe (''/'' @ device @ ''/scopes/0/wave''),
       DaqSetInt (''/'' @ device @ ''/scopes/0/single'') 1,
       ScopeExecute,
       DaqSet [(''/'' @ device @ ''/awgs/0/single'', 1), (''/'' @ device @ ''/awgs/0/enable'', 1)],
       DaqSync,
       DaqSetInt (''/'' @ device @ ''/scopes/0/enable'') 1,
       DaqSync,
       Sleep 1,
       DaqSetDouble (''/'' @ device @ ''/awgs/0/userregs/0'') 1])"

subsection \<open>Reading the scope and comparing with the expected signal\<close>

text \<open>
  Lines 289--293: the measured signal is that of the last enabled channel; with no
  enabled channel the name \<open>y_measured\<close> stays unbound.
\<close>

fun measured_loop :: "scope_wave \<Rightarrow> nat list \<Rightarrow> real list option \<Rightarrow> py_error + real list option" where
  "measured_loop d [] ym = Inr ym"
| "measured_loop d (n # ns) ym =
     (if channelenable d ! n then
        (if n < length (wave d) \<and> n < length (channelscaling d) \<and> n < length (channeloffset d)
         then measured_loop d ns
                (Some (map (\<lambda>w. w * channelscaling d ! n + channeloffset d ! n) (wave d ! n)))
         else Inl IndexError)
      else measured_loop d ns ym)"

definition y_measured_of :: "scope_wave \<Rightarrow> py_error + real list" where
  "y_measured_of d =
     (case measured_loop d [0..<length (channelenable d)] None of
        Inl e \<Rightarrow> Inl e
      | Inr None \<Rightarrow> Inl (NameError ''y_measured'')
      | Inr (Some ym) \<Rightarrow> Inr ym)"

definition full_scale :: real where
  "full_scale = 75 / 100"

definition y_expected :: "real list" where
  "y_expected =
     map (\<lambda>v. v * full_scale * awg_amplitude) (waveform_0 @ waveform_1 @ waveform_2 @ waveform_3)"

text \<open>
  \<open>np.correlate(a, v)\<close> in its default mode \<open>valid\<close>: the sliding dot products of the
  shorter array along the longer one; when \<open>a\<close> is the shorter one the result is reversed.
  Empty arguments are rejected.  \<open>np.argmax\<close> is the index of the first maximum.
\<close>

definition dot :: "real list \<Rightarrow> real list \<Rightarrow> real" where
  "dot xs ys = sum_list (map (\<lambda>(x, y). x * y) (zip xs ys))"

definition corr_valid :: "real list \<Rightarrow> real list \<Rightarrow> real list" where
  "corr_valid a v = map (\<lambda>k. dot (drop k a) v) [0..<length a - length v + 1]"

definition np_correlate :: "real list \<Rightarrow> real list \<Rightarrow> py_error + real list" where
  "np_correlate a v =
     (if a = [] \<or> v = [] then Inl (ValueError ''cannot be empty'')
      else if length v \<le> length a then Inr (corr_valid a v)
      else Inr (rev (corr_valid v a)))"

fun argmax_from :: "real list \<Rightarrow> nat \<Rightarrow> nat \<Rightarrow> real \<Rightarrow> nat" where
  "argmax_from [] i best m = best"
| "argmax_from (x # xs) i best m =
     (if m < x then argmax_from xs (Suc i) i x else argmax_from xs (Suc i) best m)"

definition np_argmax :: "real list \<Rightarrow> nat" where
  "np_argmax xs = (case xs of [] \<Rightarrow> 0 | x # ys \<Rightarrow> argmax_from ys 1 0 x)"

definition sum_squares :: "real list \<Rightarrow> real" where
  "sum_squares ys = sum_list (map (\<lambda>y. y\<^sup>2) ys)"

text \<open>
  Lines 301--332.  The result is the normalized correlation coefficient when the
  assertion passes.  When the denominator is zero one of the two signals is zero
  throughout, so the numerator is zero as well: NumPy's quotient is then \<open>nan\<close>, and
  \<open>nan > 0.95\<close> is false.
\<close>

definition check_correlation ::
  "bool \<Rightarrow> real list \<Rightarrow> real list \<Rightarrow> api_call list \<times> (py_error + real)" where
  "check_correlation do_plot y_meas y_exp =
     (case np_correlate y_meas y_exp of
        Inl e \<Rightarrow> ([], Inl e)
      | Inr corr_meas_expect \<Rightarrow>
         (let index_match = np_argmax corr_meas_expect;
              plot = (if do_plot
                      then [PrintOut ''Plotting the expected and measured AWG signal.'', Plot]
                      else []);
              denom = sqrt (sum_squares y_meas * sum_squares y_exp)
          in
          if denom = 0 then
            (plot, Inl (AssertionError ''Detected a disagreement between the measured and expected signals''))
          else
            (let norm_correlation_coeff = corr_meas_expect ! index_match / denom in
             if 95 / 100 < norm_correlation_coeff then
               (plot @ [PrintValue ''Measured and expected signals agree, normalized correlation coefficient: ''
                          norm_correlation_coeff],
                Inr norm_correlation_coeff)
             else
               (plot, Inl (AssertionError ''Detected a disagreement between the measured and expected signals'')))))"

text \<open>Lines 281--333: disabling the scope, reading it, and the comparison.\<close>

definition awg_read_and_check ::
  "bool \<Rightarrow> string \<Rightarrow> awg_session \<Rightarrow>
   api_call list \<times> (py_error + (string \<rightharpoonup> scope_wave list list))" where
  "awg_read_and_check do_plot device s =
     (let tr = [DaqSetInt (''/'' @ device @ ''/scopes/0/enable'') 0, ScopeRead];
          data_read = scope_data_read s;
          wave_nodepath = ''/'' @ device @ ''/scopes/0/wave''
      in
      case data_read wave_nodepath of
        None \<Rightarrow> (tr, Inl (AssertionError ''Error: The subscribed data was returned.''))
      | Some shots \<Rightarrow>
          if shots = [] \<or> hd shots = [] then (tr, Inl IndexError)
          else
            (case y_measured_of (hd (hd shots)) of
               Inl e \<Rightarrow> (tr, Inl e)
             | Inr y_meas \<Rightarrow>
                (case check_correlation do_plot y_meas y_expected of
                   (tr', Inl e) \<Rightarrow> (tr @ tr', Inl e)
                 | (tr', Inr c) \<Rightarrow> (tr @ tr', Inr data_read))))"

text \<open>
  \<open>run_example(device_id, do_plot)\<close> of \<open>example_awg.py\<close>.  The result is \<open>None\<close> when the
  run does not return.
\<close>

definition run_example_awg ::
  "(real \<Rightarrow> string) \<Rightarrow> string \<Rightarrow> bool \<Rightarrow> awg_session \<Rightarrow>
   (api_call list \<times> (py_error + (string \<rightharpoonup> scope_wave list list))) option" where
  "run_example_awg str_float device_id do_plot s =
     (case awg_setup str_float device_id s of
        (tr1, Inl e) \<Rightarrow> Some (tr1, Inl e)
      | (tr1, Inr device) \<Rightarrow>
     (case awg_compile s of
        None \<Rightarrow> None
      | Some (tr2, Inl e) \<Rightarrow> Some (tr1 @ tr2, Inl e)
      | Some (tr2, Inr u) \<Rightarrow>
     (case scope_wait (scope_progress s) 0 double_two of
        None \<Rightarrow> None
      | Some k \<Rightarrow>
         (case awg_read_and_check do_plot device s of
            (tr4, res) \<Rightarrow>
              Some (tr1 @ tr2 @ awg_replace_waveform device @ awg_scope_config device
                      @ scope_wait_trace k @ tr4,
                    res)))))"

subsection \<open>Synchronization before a dependent read\<close>

text \<open>
  The invariant of the specification, as a check on a trace.  A configuration write
  (\<open>daq.set\<close>, \<open>daq.setInt\<close>, \<open>daq.setDouble\<close>) leaves the session unsynchronized until the
  next \<open>daq.sync()\<close>; a dependent read (\<open>getSample\<close>, or the \<open>vectorWrite\<close> to the selected
  waveform slot) must find the session synchronized.  \<open>pending\<close> tells whether a write has
  been issued since the last synchronization.
\<close>

fun is_config_write :: "api_call \<Rightarrow> bool" where
  "is_config_write (DaqSet kvs) = True"
| "is_config_write (DaqSetInt p v) = True"
| "is_config_write (DaqSetDouble p v) = True"
| "is_config_write c = False"

fun is_dependent_read :: "api_call \<Rightarrow> bool" where
  "is_dependent_read (DaqGetSample p) = True"
| "is_dependent_read (DaqVectorWrite p v) = True"
| "is_dependent_read c = False"

fun pending_after :: "bool \<Rightarrow> api_call list \<Rightarrow> bool" where
  "pending_after pending [] = pending"
| "pending_after pending (c # cs) =
     (if is_config_write c then pending_after True cs
      else if c = DaqSync then pending_after False cs
      else pending_after pending cs)"

fun sync_before_read :: "bool \<Rightarrow> api_call list \<Rightarrow> bool" where
  "sync_before_read pending [] = True"
| "sync_before_read pending (c # cs) =
     (if is_config_write c then sync_before_read True cs
      else if c = DaqSync then sync_before_read False cs
      else if is_dependent_read c then \<not> pending \<and> sync_before_read pending cs
      else sync_before_read pending cs)"

subsection \<open>The program the specification expects\<close>

text \<open>
  The text of the sequencer program with the decimal string \<open>c1\<close> in place of \<open>_c1_\<close> and
  the string \<open>w2\<close> in place of \<open>_w2_\<close>, written out from the words of the specification
  to be compared with what the two \<open>replace\<close> calls compute.
\<close>

definition substituted_program :: "string \<Rightarrow> string \<Rightarrow> string" where
  "substituted_program c1 w2 =
     concat (map (\<lambda>l. l @ [CHR 0x0A])
       ['''',
        ''const AWG_N = '' @ c1 @ '';'',
        ''wave w0 = '' @ [CHR 0x22] @ ''wave0'' @ [CHR 0x22] @ '';'',
        ''wave w1 = gauss(AWG_N, AWG_N/2, AWG_N/20);'',
        ''wave w2 = vect('' @ w2 @ '');'',
        ''wave w3 = zeros(AWG_N);'',
        ''while(getUserReg(0) == 0);'',
        ''setTrigger(1);'',
        ''setTrigger(0);'',
        ''playWave(w0);'',
        ''playWave(w1);'',
        ''playWave(w2);'',
        ''playWave(w3);''])"

text \<open>
  The comma-separated representation of a list of strings, in the words of the
  specification: the first string, then every further string preceded by a comma.
\<close>

definition comma_separated :: "string list \<Rightarrow> string" where
  "comma_separated xs =
     (case xs of [] \<Rightarrow> [] | x # ys \<Rightarrow> x @ concat (map (\<lambda>y. CHR '','' # y) ys))"

subsection \<open>Example sessions\<close>



text \<open>
  A session in which compilation takes two polls and succeeds, the upload takes one
  iteration, and the scope never reports completion; one in which the status node
  reports failure once and success afterwards; and one whose upload never completes.
\<close>

definition awg_session_example :: awg_session where
  "awg_session_example =
     \<lparr>awg_api_session = Inr (''dev2006'', [''AWG'']),
      awg_version_check = None,
      awg_directory = ''/tmp'',
      wave_dir_isdir = True,
      compiler_status = (\<lambda>k. if k < 2 then - 1 else 0),
      compiler_statusstring = (\<lambda>k. ''''),
      awg_progress = (\<lambda>k. if k < 2 then 1 / 2 else 1),
      scope_progress = (\<lambda>k. 0),
      scope_data_read = Map.empty\<rparr>"

definition awg_session_flip :: awg_session where
  "awg_session_flip =
     awg_session_example
       \<lparr>compiler_status := (\<lambda>k. if k = 0 then - 1 else if k = 1 then 1 else 0),
        awg_progress := (\<lambda>k. 1)\<rparr>"

definition awg_session_stuck :: awg_session where
  "awg_session_stuck = awg_session_example\<lparr>awg_progress := (\<lambda>k. 0)\<rparr>"

section \<open>Properties of the GUI shell\<close>

lemma resolve_messabox:
  "resolve (Save_Setting_locals self Folder PI_Data ZI_Data) ''messabox'' = Inl (NameError ''messabox'')"
  "resolve (Load_Setting_locals self Folder PI_Data ZI_Data) ''messabox'' = Inl (NameError ''messabox'')"
  by (simp_all add: resolve_def Save_Setting_locals_def Load_Setting_locals_def module_globals_def)

lemma resolve_Dir:
  "resolve (Save_Setting_locals self Folder PI_Data ZI_Data) ''Dir'' = Inl (NameError ''Dir'')"
  "resolve (Load_Setting_locals self Folder PI_Data ZI_Data) ''Dir'' = Inl (NameError ''Dir'')"
  by (simp_all add: resolve_def Save_Setting_locals_def Load_Setting_locals_def module_globals_def)

lemma Save_Setting_raises:
  "Save_Setting self Folder PI_Data ZI_Data =
     (if truthy PI_Data \<or> ZI_Data = PNone then (Inl (NameError ''messabox''), [])
      else (Inl (NameError ''Dir''), []))"
  by (simp add: Save_Setting_def Let_def showinfo_def resolve_messabox resolve_Dir)

lemma Load_Setting_raises:
  "Load_Setting self Folder PI_Data ZI_Data =
     (if truthy PI_Data \<or> ZI_Data = PNone then (Inl (NameError ''messabox''), [])
      else (Inl (NameError ''Dir''), []))"
  by (simp add: Load_Setting_def Let_def showinfo_def resolve_messabox resolve_Dir)

text \<open>
  C1 (the code at inputs where it departs from the specification).  With the PI handle absent
  and the ZI handle present, the guard on line 133 is false, so no warning is shown: the
  handler goes on to read the unbound name \<open>Dir\<close> and raises NameError.  With both handles
  present and a directory chosen, the same guard is true: the handler takes the warning
  branch, where the unbound name \<open>messabox\<close> raises NameError, and nothing is written or
  read.  No dialog is shown in either case.
\<close>

theorem C1_save_load_guard_at_failing_inputs:
  "Save_Setting self (StringVar ''/tmp'') PNone
       (PDict [(''DAQ'', PObject 1 []), (''Device_id'', StringVar ''dev2006'')])
     = (Inl (NameError ''Dir''), [])
   \<and> Load_Setting self (StringVar ''/tmp'') PNone
       (PDict [(''DAQ'', PObject 1 []), (''Device_id'', StringVar ''dev2006'')])
     = (Inl (NameError ''Dir''), [])
   \<and> Save_Setting self (StringVar ''/tmp'') (PDict [(''axis'', PStr ''1'')])
       (PDict [(''DAQ'', PObject 1 []), (''Device_id'', StringVar ''dev2006'')])
     = (Inl (NameError ''messabox''), [])
   \<and> Load_Setting self (StringVar ''/tmp'') (PDict [(''axis'', PStr ''1'')])
       (PDict [(''DAQ'', PObject 1 []), (''Device_id'', StringVar ''dev2006'')])
     = (Inl (NameError ''messabox''), [])"
  by (simp add: Save_Setting_raises Load_Setting_raises)

text \<open>
  C9.  Pressing any of the four buttons of the file panel raises TypeError in the
  zero-parameter lambda, with no effect at all (no print, no dialog, no file access).
  Were the lambda's body entered, the calls of \<open>Start\<close>, \<open>Save_Setting\<close> and
  \<open>Stop_Measurement\<close> have the wrong number of arguments whatever the attributes hold;
  and \<open>Save_Setting\<close> and \<open>Load_Setting\<close>, on any arguments, raise NameError on
  \<open>messabox\<close> or \<open>Dir\<close> before any dialog or file access.
\<close>

theorem C9_file_panel_handlers_always_raise:
  "button_press self File_Dialog b event = (Inl (TypeError ''<lambda>''), [])
   \<and> py_call ''Start'' 4 [p, z] body1 = (Inl (TypeError ''Start''), [])
   \<and> py_call ''Stop_Measurement'' 0 [p, z] body2 = (Inl (TypeError ''Stop_Measurement''), [])
   \<and> py_call ''Save_Setting'' 3 [d, f, p, z] body3 = (Inl (TypeError ''Save_Setting''), [])
   \<and> (Save_Setting self Folder PI_Data ZI_Data = (Inl (NameError ''messabox''), [])
      \<or> Save_Setting self Folder PI_Data ZI_Data = (Inl (NameError ''Dir''), []))
   \<and> (Load_Setting self Folder PI_Data ZI_Data = (Inl (NameError ''messabox''), [])
      \<or> Load_Setting self Folder PI_Data ZI_Data = (Inl (NameError ''Dir''), []))"
  by (simp add: button_press_def binding_def py_call_def bind_args_def
      Save_Setting_raises Load_Setting_raises)

text \<open>
  C8 (the code at inputs where it departs from the specification).  On the application object
  that \<open>__init__\<close> builds, \<open>Refresh\<close> raises AttributeError at \<open>app.Frame\<close> whether or not
  the panel is connected: it neither re-schedules itself nor copies any device data, and
  the application object is unchanged.  The two connect buttons do not reach \<open>Refresh\<close>:
  their lambdas raise NameError on \<open>frame\<close> and \<open>ZiFrame\<close>.
\<close>

theorem C8_refresh_raises:
  "Refresh Show_device ZI_Control_call
       (White_Light_Inteferometer_init ZiFrame frame PI_Control ZI_Control) F receiver
     = (Inl (AttributeError ''Frame''), [],
        White_Light_Inteferometer_init ZiFrame frame PI_Control ZI_Control)
   \<and> frame_CButton_press refresh app event = (Inl (NameError ''frame''), [], app)
   \<and> ZiFrame_CButton_press refresh app event = (Inl (NameError ''ZiFrame''), [], app)"
  by (simp add: Refresh_def White_Light_Inteferometer_init_def frame_CButton_press_def
      ZiFrame_CButton_press_def CButton_binding_def bind_args_def resolve_def module_globals_def)

section \<open>Properties of example_connect_config.py\<close>





lemma binary64_scale_ge_1: "1 \<le> binary64_scale"
  unfolding binary64_scale_def by (rule one_le_power) simp

lemma binary64_max_below_overflow: "binary64_max < binary64_overflow"
  using binary64_scale_ge_1 by (simp add: binary64_max_def binary64_overflow_def field_simps)







lemma binary64_max_value: "binary64_max = 2 ^ 1024 - 2 ^ 971"
proof -
  have a: "(2::real) ^ 1024 = 2 ^ 2 * 2 ^ 1022"
    by (simp only: power_add [symmetric]) simp
  have b: "(2::real) ^ 1022 = 2 ^ 971 * 2 ^ 51"
    by (simp only: power_add [symmetric]) simp
  have "(2::real) ^ 1022 / 2 ^ 51 = 2 ^ 971"
    unfolding b by simp
  then show ?thesis
    unfolding binary64_max_def binary64_scale_def a by simp
qed







section \<open>Properties of example_awg.py\<close>

subsection \<open>Placeholder substitution\<close>

lemma str_replace_skip:
  assumes "old \<noteq> []" "hd old \<notin> set w"
  shows "str_replace old new (w @ rest) = w @ str_replace old new rest"
  using assms
proof (induction w)
  case Nil
  then show ?case by simp
next
  case (Cons c w)
  then have "\<not> prefix old (c # w @ rest)"
    by (cases old) auto
  with Cons show ?case by simp
qed

lemma occurs_in_skip:
  assumes "old \<noteq> []" "hd old \<notin> set w"
  shows "occurs_in old (w @ rest) = occurs_in old rest"
  using assms
proof (induction w)
  case Nil
  then show ?case by simp
next
  case (Cons c w)
  then have "\<not> prefix old (c # w @ rest)"
    by (cases old) auto
  with Cons show ?case by simp
qed

lemma occurs_in_sublist: "occurs_in old s = sublist old s"
  by (induction s) (simp_all add: sublist_Cons_right)

lemma set_str_join:
  "set (str_join sep xs) \<subseteq> set sep \<union> (\<Union>x\<in>set xs. set x)"
  by (induction sep xs rule: str_join.induct) auto

lemma str_nat_AWG_N: "str_nat AWG_N = ''2000''"
  by (simp add: AWG_N_def str_nat.simps)

lemma first_replace:
  "str_replace ''_w2_'' W awg_program_template =
     CHR 0x0A # ''const AWG_N = _c1_;'' @ [CHR 0x0A]
     @ ''wave w0 = '' @ [CHR 0x22] @ ''wave0'' @ [CHR 0x22] @ '';'' @ [CHR 0x0A]
     @ ''wave w1 = gauss(AWG_N, AWG_N/2, AWG_N/20);'' @ [CHR 0x0A]
     @ ''wave w2 = vect('' @ W @ '');'' @ [CHR 0x0A]
     @ ''wave w3 = zeros(AWG_N);'' @ [CHR 0x0A]
     @ ''while(getUserReg(0) == 0);'' @ [CHR 0x0A]
     @ ''setTrigger(1);'' @ [CHR 0x0A]
     @ ''setTrigger(0);'' @ [CHR 0x0A]
     @ ''playWave(w0);'' @ [CHR 0x0A]
     @ ''playWave(w1);'' @ [CHR 0x0A]
     @ ''playWave(w2);'' @ [CHR 0x0A]
     @ ''playWave(w3);'' @ [CHR 0x0A]"
  by (simp add: awg_program_template_def)


lemma second_replace:
  assumes "CHR ''_'' \<notin> set W"
  shows "str_replace ''_c1_'' ''2000'' (str_replace ''_w2_'' W awg_program_template)
           = substituted_program ''2000'' W"
  using assms
  by (simp add: first_replace substituted_program_def str_replace_skip)

lemma no_w2_left:
  assumes "CHR ''_'' \<notin> set W"
  shows "\<not> occurs_in ''_w2_'' (substituted_program ''2000'' W)"
  using assms by (simp add: substituted_program_def occurs_in_skip)

lemma no_c1_left:
  assumes "CHR ''_'' \<notin> set W"
  shows "\<not> occurs_in ''_c1_'' (substituted_program ''2000'' W)"
  using assms by (simp add: substituted_program_def occurs_in_skip)

lemma length_waveform_2: "length waveform_2 = 2000"
  by (simp add: waveform_2_def np_linspace_def AWG_N_def)

lemma nth_waveform_2:
  "i < 2000 \<Longrightarrow> waveform_2 ! i = sin (real i * (2 * pi / 1999))"
  by (simp add: waveform_2_def np_linspace_def AWG_N_def)

lemma str_join_comma_separated: "str_join '','' xs = comma_separated xs"
  by (induction "'',''" xs rule: str_join.induct) (simp_all add: comma_separated_def)

lemma comma_separated_example: "comma_separated [''a'', ''b'', ''c''] = ''a,b,c''"
  by (simp add: comma_separated_def)

lemma comma_separated_constant:
  "comma_separated (map (\<lambda>i. s) [0..<Suc n]) = s @ concat (replicate n (CHR '','' # s))"
proof -
  have "map (\<lambda>i. s) [0..<Suc n] = s # replicate n s"
    by (simp add: map_replicate_const del: upt_Suc)
  then show ?thesis by (simp add: comma_separated_def)
qed

lemma waveform_2_samples:
  "waveform_2 = map (\<lambda>i. sin (2 * pi * real i / 1999)) [0..<2000]"
  by (simp add: waveform_2_def np_linspace_def AWG_N_def mult_ac)

text \<open>
  C6.  Provided the printed form of each sample contains no underscore (Python prints a
  float with digits, a sign, a point, an exponent, \<open>inf\<close> or \<open>nan\<close>), the program after the
  two \<open>replace\<close> calls is the template with \<open>_c1_\<close> replaced by \<open>2000\<close>, the decimal string of
  \<open>AWG_N\<close>, and \<open>_w2_\<close> replaced by the printed samples \<open>sin (2 pi i / 1999)\<close>,
  \<open>i = 0, ..., 1999\<close>, separated by commas; neither placeholder occurs in it any more.
\<close>

theorem C6_placeholders_substituted:
  assumes "\<forall>i<2000. CHR ''_'' \<notin> set (str_float (sin (2 * pi * real i / 1999)))"
  shows "awg_program str_float =
           substituted_program ''2000''
             (comma_separated (map (\<lambda>i. str_float (sin (2 * pi * real i / 1999))) [0..<2000]))
         \<and> str_nat AWG_N = ''2000''
         \<and> \<not> sublist ''_w2_'' (awg_program str_float)
         \<and> \<not> sublist ''_c1_'' (awg_program str_float)"
proof -
  let ?strs = "map (\<lambda>i. str_float (sin (2 * pi * real i / 1999))) [0..<2000]"
  let ?W = "comma_separated ?strs"
  have strs: "map str_float waveform_2 = ?strs"
    by (simp add: waveform_2_samples)
  have "set (str_join '','' ?strs) \<subseteq> set '','' \<union> (\<Union>x\<in>set ?strs. set x)"
    by (rule set_str_join)
  with assms have "CHR ''_'' \<notin> set (str_join '','' ?strs)" by auto
  then have W: "CHR ''_'' \<notin> set ?W" unfolding str_join_comma_separated .
  have p: "awg_program str_float = substituted_program ''2000'' ?W"
    unfolding awg_program_def strs str_join_comma_separated
    by (simp add: py_replace_def str_nat_AWG_N second_replace [OF W])
  have a: "\<not> sublist ''_w2_'' (awg_program str_float)"
    unfolding p using no_w2_left [OF W] unfolding occurs_in_sublist .
  have b: "\<not> sublist ''_c1_'' (awg_program str_float)"
    unfolding p using no_c1_left [OF W] unfolding occurs_in_sublist .
  from p str_nat_AWG_N a b show ?thesis by (intro conjI)
qed

theorem C6_placeholders_substituted_witness:
  "awg_program (\<lambda>x. ''0.0'') =
     substituted_program ''2000'' (''0.0'' @ concat (replicate 1999 '',0.0''))
   \<and> str_nat AWG_N = ''2000''
   \<and> \<not> sublist ''_w2_'' (awg_program (\<lambda>x. ''0.0''))
   \<and> \<not> sublist ''_c1_'' (awg_program (\<lambda>x. ''0.0''))"
proof -
  have "\<forall>i<2000. CHR ''_'' \<notin> set ((\<lambda>x. ''0.0'') (sin (2 * pi * real i / 1999)))"
    by simp
  from C6_placeholders_substituted [of "\<lambda>x. ''0.0''", OF this]
  have *: "awg_program (\<lambda>x. ''0.0'') =
           substituted_program ''2000'' (comma_separated (map (\<lambda>i. ''0.0'') [0..<2000]))
         \<and> str_nat AWG_N = ''2000''
         \<and> \<not> sublist ''_w2_'' (awg_program (\<lambda>x. ''0.0''))
         \<and> \<not> sublist ''_c1_'' (awg_program (\<lambda>x. ''0.0''))" .
  have "comma_separated (map (\<lambda>i. ''0.0'') [0..<Suc 1999])
          = ''0.0'' @ concat (replicate 1999 (CHR '','' # ''0.0''))"
    by (rule comma_separated_constant)
  then have eq: "comma_separated (map (\<lambda>i. ''0.0'') [0..<2000])
          = ''0.0'' @ concat (replicate 1999 '',0.0'')"
    by simp
  from * [unfolded eq] show ?thesis .
qed

subsection \<open>The time-out counter\<close>

text \<open>Rounding to 53 bits, and the twenty subtractions of \<open>0.1\<close> from \<open>2.0\<close> one by one:
  the values are those of Python's floats.\<close>

lemma double_literals:
  "double_val double_two = 2"
  "double_val double_tenth = 3602879701896397 / 36028797018963968"
  "\<bar>double_val double_tenth - 1 / 10\<bar> < 1 / 2 ^ 57"
  by (simp_all add: double_val_def double_two_def double_tenth_def powr_minus_divide)

lemma bitlen_eq:
  "2 ^ k \<le> n \<Longrightarrow> n < 2 ^ Suc k \<Longrightarrow> bitlen n = Suc k"
proof (induction k arbitrary: n)
  case 0
  then have "n = 1" by simp
  then show ?case by (simp add: bitlen.simps)
next
  case (Suc k)
  then have "2 ^ k \<le> n div 2" "n div 2 < 2 ^ Suc k" by simp_all
  then have "bitlen (n div 2) = Suc k" by (rule Suc.IH)
  moreover have "n \<noteq> 0" using Suc.prems by auto
  ultimately show ?case by (subst bitlen.simps) simp
qed

lemma bitlen_le:
  "n < 2 ^ k \<Longrightarrow> bitlen n \<le> k"
proof (induction k arbitrary: n)
  case 0
  then show ?case by (simp add: bitlen.simps)
next
  case (Suc k)
  then have "n div 2 < 2 ^ k" by simp
  then have "bitlen (n div 2) \<le> k" by (rule Suc.IH)
  then show ?case by (subst bitlen.simps) simp
qed

lemma round_to_53_exact:
  assumes "\<bar>m\<bar> < 2 ^ 53"
  shows "round_to_53 (m, e) = (m, e)"
proof -
  have "nat \<bar>m\<bar> < 2 ^ 53" using assms by (simp add: nat_less_iff)
  then have "bitlen (nat \<bar>m\<bar>) \<le> 53" by (rule bitlen_le)
  then show ?thesis by (simp add: round_to_53_def)
qed

lemma round_to_53_shift:
  assumes "2 ^ (52 + sh) \<le> \<bar>m\<bar>" "\<bar>m\<bar> < 2 ^ (53 + sh)" "0 < sh"
  shows "round_to_53 (m, e) =
           (sgn m * (if 2 ^ (sh - 1) < \<bar>m\<bar> mod 2 ^ sh
                        \<or> (\<bar>m\<bar> mod 2 ^ sh = 2 ^ (sh - 1) \<and> odd (\<bar>m\<bar> div 2 ^ sh))
                     then \<bar>m\<bar> div 2 ^ sh + 1 else \<bar>m\<bar> div 2 ^ sh),
            e + int sh)"
proof -
  have "2 ^ (52 + sh) \<le> nat \<bar>m\<bar>" "nat \<bar>m\<bar> < 2 ^ Suc (52 + sh)"
    using assms by (simp_all add: le_nat_iff nat_less_iff)
  then have "bitlen (nat \<bar>m\<bar>) = Suc (52 + sh)" by (rule bitlen_eq)
  then show ?thesis using assms(3) by (simp add: round_to_53_def Let_def)
qed

lemma double_sub_steps:
  "double_sub (1, 1) double_tenth = (8556839292003942, - 52)"
  "double_sub (8556839292003942, - 52) double_tenth = (8106479329266892, - 52)"
  "double_sub (8106479329266892, - 52) double_tenth = (7656119366529842, - 52)"
  "double_sub (7656119366529842, - 52) double_tenth = (7205759403792792, - 52)"
  "double_sub (7205759403792792, - 52) double_tenth = (6755399441055742, - 52)"
  "double_sub (6755399441055742, - 52) double_tenth = (6305039478318692, - 52)"
  "double_sub (6305039478318692, - 52) double_tenth = (5854679515581642, - 52)"
  "double_sub (5854679515581642, - 52) double_tenth = (5404319552844592, - 52)"
  "double_sub (5404319552844592, - 52) double_tenth = (4953959590107542, - 52)"
  "double_sub (4953959590107542, - 52) double_tenth = (9007199254740985, - 53)"
  "double_sub (9007199254740985, - 53) double_tenth = (8106479329266886, - 53)"
  "double_sub (8106479329266886, - 53) double_tenth = (7205759403792787, - 53)"
  "double_sub (7205759403792787, - 53) double_tenth = (6305039478318688, - 53)"
  "double_sub (6305039478318688, - 53) double_tenth = (5404319552844589, - 53)"
  "double_sub (5404319552844589, - 53) double_tenth = (9007199254740980, - 54)"
  "double_sub (9007199254740980, - 54) double_tenth = (7205759403792782, - 54)"
  "double_sub (7205759403792782, - 54) double_tenth = (5404319552844584, - 54)"
  "double_sub (5404319552844584, - 54) double_tenth = (7205759403792771, - 55)"
  "double_sub (7205759403792771, - 55) double_tenth = (3602879701896374, - 55)"
  "double_sub (3602879701896374, - 55) double_tenth = (- 23, - 55)"
  unfolding double_sub_def double_tenth_def
  by (simp_all add: round_to_53_exact round_to_53_shift [where sh = 1]
      round_to_53_shift [where sh = 2] round_to_53_shift [where sh = 3])


subsection \<open>The polling loops\<close>

text \<open>The compile loop and the upload loop end at the first read that fails the loop
  condition, and do not end when there is none.\<close>

lemma compile_wait_first:
  assumes "status r \<noteq> - 1" "\<forall>j. k \<le> j \<and> j < r \<longrightarrow> status j = - 1" "k \<le> r"
  shows "compile_wait status k = Some r"
  using assms
proof (induction "r - k" arbitrary: k)
  case 0
  then have "k = r" by simp
  with 0 show ?case by (subst compile_wait.simps) simp
next
  case (Suc n)
  then have "status k = - 1" "n = r - Suc k" "Suc k \<le> r" by auto
  moreover from this Suc have "compile_wait status (Suc k) = Some r" by auto
  ultimately show ?case by (subst compile_wait.simps) simp
qed

lemma compile_wait_Some:
  assumes "compile_wait status k = Some r"
  shows "k \<le> r \<and> status r \<noteq> - 1 \<and> (\<forall>j. k \<le> j \<and> j < r \<longrightarrow> status j = - 1)"
  using assms
proof (induction rule: compile_wait.raw_induct [rotated 1, consumes 1])
  case (1 cw status k r)
  show ?case
  proof (cases "status k = - 1")
    case True
    with 1 have ih: "Suc k \<le> r \<and> status r \<noteq> - 1 \<and> (\<forall>j. Suc k \<le> j \<and> j < r \<longrightarrow> status j = - 1)"
      by simp
    have "status j = - 1" if "k \<le> j \<and> j < r" for j
      using that True ih by (cases "j = k") auto
    with ih show ?thesis by auto
  next
    case False
    with 1 show ?thesis by auto
  qed
qed

lemma compile_wait_None:
  assumes "\<forall>j. status j = - 1"
  shows "compile_wait status k = None"
proof (cases "compile_wait status k")
  case None
  then show ?thesis .
next
  case (Some r)
  then have "status r \<noteq> - 1" using compile_wait_Some by blast
  with assms show ?thesis by simp
qed

lemma upload_wait_first:
  assumes "\<not> progress (2 * r) < 1" "\<forall>j. i \<le> j \<and> j < r \<longrightarrow> progress (2 * j) < 1" "i \<le> r"
  shows "upload_wait progress i = Some r"
  using assms
proof (induction "r - i" arbitrary: i)
  case 0
  then have "i = r" by simp
  with 0 show ?case by (subst upload_wait.simps) simp
next
  case (Suc n)
  then have "progress (2 * i) < 1" "n = r - Suc i" "Suc i \<le> r" by auto
  moreover from this Suc have "upload_wait progress (Suc i) = Some r" by auto
  ultimately show ?case by (subst upload_wait.simps) simp
qed

lemma upload_wait_Some:
  assumes "upload_wait progress i = Some r"
  shows "\<not> progress (2 * r) < 1"
  using assms
proof (induction rule: upload_wait.raw_induct [rotated 1, consumes 1])
  case (1 uw progress i r)
  then show ?case by (cases "progress (2 * i) < 1") auto
qed

lemma upload_wait_None:
  assumes "\<forall>j. progress j < 1"
  shows "upload_wait progress i = None"
proof (cases "upload_wait progress i")
  case None
  then show ?thesis .
next
  case (Some r)
  then have "\<not> progress (2 * r) < 1" by (rule upload_wait_Some)
  with assms show ?thesis by simp
qed

text \<open>The scope loop ends as soon as the counter is no longer positive: after twenty
  iterations at the latest.\<close>

lemma scope_wait_bounded:
  assumes "\<not> double_pos (((\<lambda>t. double_sub t double_tenth) ^^ n) t)"
  shows "\<exists>j\<le>n. scope_wait progress k t = Some (k + j)"
  using assms
proof (induction n arbitrary: k t)
  case 0
  then show ?case by (subst scope_wait.simps) simp
next
  case (Suc n)
  show ?case
  proof (cases "progress k < 1 \<and> double_pos t")
    case True
    from Suc.prems
    have "\<not> double_pos (((\<lambda>t. double_sub t double_tenth) ^^ n) (double_sub t double_tenth))"
      unfolding funpow_Suc_right o_apply .
    then obtain j where j: "j \<le> n"
      "scope_wait progress (Suc k) (double_sub t double_tenth) = Some (Suc k + j)"
      using Suc.IH by blast
    have "scope_wait progress k t = Some (k + Suc j)"
      using True j(2) by (subst scope_wait.simps) simp
    with j(1) show ?thesis by (intro exI [of _ "Suc j"]) simp
  next
    case False
    then have "scope_wait progress k t = Some (k + 0)"
      by (subst scope_wait.simps) auto
    then show ?thesis by blast
  qed
qed

lemma scope_wait_exhausts:
  assumes "\<forall>j. progress j < 1"
    and "\<forall>i<n. double_pos (((\<lambda>t. double_sub t double_tenth) ^^ i) t)"
    and "\<not> double_pos (((\<lambda>t. double_sub t double_tenth) ^^ n) t)"
  shows "scope_wait progress k t = Some (k + n)"
  using assms(2,3)
proof (induction n arbitrary: k t)
  case 0
  then show ?case by (subst scope_wait.simps) simp
next
  case (Suc n)
  from Suc.prems(1) have pos: "double_pos t" by (metis funpow_0 zero_less_Suc)
  have "\<forall>i<n. double_pos (((\<lambda>t. double_sub t double_tenth) ^^ i) (double_sub t double_tenth))"
  proof (intro allI impI)
    fix i assume "i < n"
    then have "double_pos (((\<lambda>t. double_sub t double_tenth) ^^ Suc i) t)"
      using Suc.prems(1) by (simp del: funpow.simps)
    then show "double_pos (((\<lambda>t. double_sub t double_tenth) ^^ i) (double_sub t double_tenth))"
      unfolding funpow_Suc_right o_apply .
  qed
  moreover have "\<not> double_pos (((\<lambda>t. double_sub t double_tenth) ^^ n) (double_sub t double_tenth))"
    using Suc.prems(2) unfolding funpow_Suc_right o_apply .
  ultimately have "scope_wait progress (Suc k) (double_sub t double_tenth) = Some (Suc k + n)"
    by (rule Suc.IH)
  then show ?case using pos assms(1) by (subst scope_wait.simps) simp
qed

lemma timeout_budget:
  "((\<lambda>t. double_sub t double_tenth) ^^ 20) double_two = (- 23, - 55)"
  by (simp add: eval_nat_numeral double_two_def double_sub_steps)

lemma timeout_positive:
  assumes "i < 20"
  shows "double_pos (((\<lambda>t. double_sub t double_tenth) ^^ i) double_two)"
  using assms
  by (auto simp: eval_nat_numeral less_Suc_eq double_two_def double_sub_steps double_pos_def)

lemma scope_wait_at_most_20:
  "\<exists>j\<le>20. scope_wait progress 0 double_two = Some j"
  using scope_wait_bounded [of 20 double_two progress 0]
  by (simp add: timeout_budget double_pos_def)

lemma scope_wait_20:
  assumes "\<forall>j. progress j < 1"
  shows "scope_wait progress 0 double_two = Some 20"
  using scope_wait_exhausts [OF assms, of 20 double_two 0] timeout_positive
  by (simp add: timeout_budget double_pos_def)

subsection \<open>Compilation status polling\<close>

lemma awg_compile_failed:
  assumes "compile_wait (compiler_status s) 0 = Some r" "compiler_status s (r + 1) = 1"
  shows "awg_compile s =
           Some (compile_wait_trace r
                   @ [AwgGet ''awgModule/compiler/status'',
                      AwgGet ''awgModule/compiler/statusstring''],
                 Inl (PyException (compiler_statusstring s 0)))"
  using assms by (simp add: awg_compile_def)

lemma awg_compile_uploads:
  assumes "compile_wait (compiler_status s) 0 = Some r" "compiler_status s (r + 1) \<noteq> 1"
  shows "\<exists>pre. awg_compile s =
           map_option (\<lambda>i. (pre @ upload_wait_trace (awg_progress s) i, Inr ()))
             (upload_wait (awg_progress s) 0)"
proof (cases "upload_wait (awg_progress s) 0")
  case None
  with assms show ?thesis by (simp add: awg_compile_def Let_def)
next
  case (Some i)
  with assms show ?thesis
    by (simp add: awg_compile_def Let_def)
qed

text \<open>
  C3 (amended).  The wait loop ends exactly at the first read of the status node that
  is not \<open>-1\<close>, and does not end when there is none.  The branch is then taken on the
  next read of the node: if that read is \<open>1\<close> an exception carrying the compiler's status
  string is raised; if it is anything else, the run enters the upload loop.
\<close>

theorem C3_compile_status_polling:
  "(compiler_status s r \<noteq> - 1 \<and> (\<forall>j<r. compiler_status s j = - 1) \<longrightarrow>
      compile_wait (compiler_status s) 0 = Some r
      \<and> (compiler_status s (r + 1) = 1 \<longrightarrow>
           awg_compile s =
             Some (compile_wait_trace r
                     @ [AwgGet ''awgModule/compiler/status'',
                        AwgGet ''awgModule/compiler/statusstring''],
                   Inl (PyException (compiler_statusstring s 0))))
      \<and> (compiler_status s (r + 1) \<noteq> 1 \<longrightarrow>
           (\<exists>pre. awg_compile s =
              map_option (\<lambda>i. (pre @ upload_wait_trace (awg_progress s) i, Inr ()))
                (upload_wait (awg_progress s) 0))))
   \<and> ((\<forall>j. compiler_status s j = - 1) \<longrightarrow> awg_compile s = None)"
proof (intro conjI impI)
  assume a: "compiler_status s r \<noteq> - 1 \<and> (\<forall>j<r. compiler_status s j = - 1)"
  then show w: "compile_wait (compiler_status s) 0 = Some r"
    by (intro compile_wait_first) auto
  {
    assume "compiler_status s (r + 1) = 1"
    with w show "awg_compile s =
             Some (compile_wait_trace r
                     @ [AwgGet ''awgModule/compiler/status'',
                        AwgGet ''awgModule/compiler/statusstring''],
                   Inl (PyException (compiler_statusstring s 0)))"
      by (rule awg_compile_failed)
  }
  {
    assume "compiler_status s (r + 1) \<noteq> 1"
    with w show "\<exists>pre. awg_compile s =
              map_option (\<lambda>i. (pre @ upload_wait_trace (awg_progress s) i, Inr ()))
                (upload_wait (awg_progress s) 0)"
      by (rule awg_compile_uploads)
  }
next
  assume "\<forall>j. compiler_status s j = - 1"
  then have "compile_wait (compiler_status s) 0 = None" by (rule compile_wait_None)
  then show "awg_compile s = None" by (simp add: awg_compile_def)
qed

lemma example_compile_wait: "compile_wait (compiler_status awg_session_example) 0 = Some 2"
  by (rule compile_wait_first) (simp_all add: awg_session_example_def)

lemma example_upload_wait: "upload_wait (awg_progress awg_session_example) 0 = Some 1"
  by (rule upload_wait_first) (simp_all add: awg_session_example_def)

theorem C3_compile_status_polling_witness:
  "compile_wait (compiler_status awg_session_example) 0 = Some 2
   \<and> (\<exists>pre. awg_compile awg_session_example =
          Some (pre @ upload_wait_trace (awg_progress awg_session_example) 1, Inr ()))
   \<and> awg_compile (awg_session_example\<lparr>compiler_status := (\<lambda>k. if k < 2 then - 1 else 1)\<rparr>) =
        Some (compile_wait_trace 2
                @ [AwgGet ''awgModule/compiler/status'',
                   AwgGet ''awgModule/compiler/statusstring''],
              Inl (PyException ''''))
   \<and> awg_compile (awg_session_example\<lparr>compiler_status := (\<lambda>k. - 1)\<rparr>) = None"
  using C3_compile_status_polling [of awg_session_example 2]
    C3_compile_status_polling [of "awg_session_example\<lparr>compiler_status := (\<lambda>k. if k < 2 then - 1 else 1)\<rparr>" 2]
    C3_compile_status_polling [of "awg_session_example\<lparr>compiler_status := (\<lambda>k. - 1)\<rparr>" 0]
  by (simp add: example_upload_wait) (simp add: awg_session_example_def)

lemma flip_compile_wait: "compile_wait (compiler_status awg_session_flip) 0 = Some 1"
  by (rule compile_wait_first) (simp_all add: awg_session_flip_def awg_session_example_def)

lemma flip_upload_wait: "upload_wait (awg_progress awg_session_flip) 0 = Some 0"
  by (rule upload_wait_first) (simp_all add: awg_session_flip_def awg_session_example_def)

text \<open>
  C3 as stated fails when the node changes after the loop: on the reads \<open>-1, 1, 0, ...\<close>
  the loop ends on the value \<open>1\<close>, the next read is \<open>0\<close>, and no exception is raised.
\<close>

theorem C3_final_status_reread_counterexample:
  "compile_wait (compiler_status awg_session_flip) 0 = Some 1
   \<and> compiler_status awg_session_flip 1 = 1
   \<and> map_option snd (awg_compile awg_session_flip) = Some (Inr ())"
  by (simp add: flip_compile_wait awg_compile_def flip_upload_wait Let_def)
     (simp add: awg_session_flip_def awg_session_example_def)

subsection \<open>Termination of the run\<close>

lemma awg_setup_collapse:
  assumes "snd (awg_setup str_float device_id s) = Inr device"
  shows "awg_setup str_float device_id s = (fst (awg_setup str_float device_id s), Inr device)"
  using assms by (metis prod.collapse)

lemma awg_read_and_check_starts:
  "\<exists>post. fst (awg_read_and_check do_plot device s) =
     [DaqSetInt (''/'' @ device @ ''/scopes/0/enable'') 0, ScopeRead] @ post"
  by (simp add: awg_read_and_check_def Let_def split: option.splits sum.splits prod.splits)

lemma example_setup:
  "snd (awg_setup str_float ''dev2006'' awg_session_example) = Inr ''dev2006''"
  by (simp add: awg_setup_def awg_session_example_def Let_def)

text \<open>
  C10.  When the run gets past the setup and the compilation does not fail (the status
  read after the wait loop is not \<open>1\<close>), and the progress node stays below \<open>1.0\<close> on every
  read, the upload loop does not end and \<open>run_example\<close> does not return.  The scope loop,
  in contrast, ends within twenty iterations whatever the scope reports.
\<close>

theorem C10_upload_wait_unbounded:
  assumes "snd (awg_setup str_float device_id s) = Inr device"
    and "compiler_status s r \<noteq> - 1"
    and "\<forall>j<r. compiler_status s j = - 1"
    and "compiler_status s (r + 1) \<noteq> 1"
    and "\<forall>j. awg_progress s j < 1"
  shows "upload_wait (awg_progress s) 0 = None
         \<and> run_example_awg str_float device_id do_plot s = None
         \<and> (\<exists>j\<le>20. scope_wait p 0 double_two = Some j)"
proof -
  have w: "compile_wait (compiler_status s) 0 = Some r"
    using assms(2,3) by (intro compile_wait_first) auto
  have u: "upload_wait (awg_progress s) 0 = None"
    using assms(5) by (rule upload_wait_None)
  have "awg_compile s = None"
    using w u assms(4) by (simp add: awg_compile_def Let_def)
  then have "run_example_awg str_float device_id do_plot s = None"
    by (subst run_example_awg_def, subst awg_setup_collapse [OF assms(1)]) simp
  with u scope_wait_at_most_20 [of p] show ?thesis by simp
qed

theorem C10_upload_wait_unbounded_witness:
  "upload_wait (awg_progress awg_session_stuck) 0 = None
   \<and> run_example_awg (\<lambda>x. ''0.0'') ''dev2006'' False awg_session_stuck = None
   \<and> (\<exists>j\<le>20. scope_wait (\<lambda>k. 0) 0 double_two = Some j)"
proof -
  have "snd (awg_setup (\<lambda>x. ''0.0'') ''dev2006'' awg_session_stuck) = Inr ''dev2006''"
    using example_setup [of "\<lambda>x. ''0.0''"]
    by (simp add: awg_setup_def awg_session_stuck_def awg_session_example_def Let_def)
  moreover have "compiler_status awg_session_stuck 2 \<noteq> - 1"
    "\<forall>j<2. compiler_status awg_session_stuck j = - 1"
    "compiler_status awg_session_stuck (2 + 1) \<noteq> 1"
    "\<forall>j. awg_progress awg_session_stuck j < 1"
    by (simp_all add: awg_session_stuck_def awg_session_example_def)
  ultimately show ?thesis
    by (rule C10_upload_wait_unbounded)
qed

text \<open>
  C5.  When the run reaches the scope loop and the scope's progress stays below \<open>1.0\<close>
  on every read, the loop ends after exactly twenty iterations (twenty sleeps of
  \<open>0.1\<close>), the scope is disabled and \<open>scopeModule.read\<close> is called.  Whatever the progress
  reads are, the loop ends within twenty iterations.
\<close>

theorem C5_scope_read_timeout:
  assumes "snd (awg_setup str_float device_id s) = Inr device"
    and "compiler_status s r \<noteq> - 1"
    and "\<forall>j<r. compiler_status s j = - 1"
    and "compiler_status s (r + 1) \<noteq> 1"
    and "\<not> awg_progress s (2 * i) < 1"
    and "\<forall>j<i. awg_progress s (2 * j) < 1"
    and "\<forall>j. scope_progress s j < 1"
  shows "scope_wait (scope_progress s) 0 double_two = Some 20
         \<and> (\<exists>pre post res. run_example_awg str_float device_id do_plot s =
               Some (pre @ scope_wait_trace 20
                       @ [DaqSetInt (''/'' @ device @ ''/scopes/0/enable'') 0, ScopeRead] @ post,
                     res))
         \<and> (\<exists>j\<le>20. scope_wait p 0 double_two = Some j)"
proof -
  have w: "compile_wait (compiler_status s) 0 = Some r"
    using assms(2,3) by (intro compile_wait_first) auto
  have u: "upload_wait (awg_progress s) 0 = Some i"
    using assms(5,6) by (intro upload_wait_first) auto
  obtain tr2 where c: "awg_compile s = Some (tr2, Inr ())"
    using w u assms(4) by (simp add: awg_compile_def Let_def)
  have k: "scope_wait (scope_progress s) 0 double_two = Some 20"
    using assms(7) by (rule scope_wait_20)
  obtain post where p: "fst (awg_read_and_check do_plot device s) =
      [DaqSetInt (''/'' @ device @ ''/scopes/0/enable'') 0, ScopeRead] @ post"
    using awg_read_and_check_starts by blast
  let ?pre = "fst (awg_setup str_float device_id s) @ tr2 @ awg_replace_waveform device
                @ awg_scope_config device"
  have "run_example_awg str_float device_id do_plot s =
          Some (?pre @ scope_wait_trace 20
                  @ [DaqSetInt (''/'' @ device @ ''/scopes/0/enable'') 0, ScopeRead] @ post,
                snd (awg_read_and_check do_plot device s))"
    by (subst run_example_awg_def, subst awg_setup_collapse [OF assms(1)])
       (use p in \<open>simp add: c k split_def\<close>)
  then have "\<exists>pre post res. run_example_awg str_float device_id do_plot s =
               Some (pre @ scope_wait_trace 20
                       @ [DaqSetInt (''/'' @ device @ ''/scopes/0/enable'') 0, ScopeRead] @ post,
                     res)"
    by blast
  with k scope_wait_at_most_20 [of p] show ?thesis by simp
qed

theorem C5_scope_read_timeout_witness:
  "scope_wait (scope_progress awg_session_example) 0 double_two = Some 20
   \<and> (\<exists>pre post res. run_example_awg (\<lambda>x. ''0.0'') ''dev2006'' False awg_session_example =
         Some (pre @ scope_wait_trace 20
                 @ [DaqSetInt (''/'' @ ''dev2006'' @ ''/scopes/0/enable'') 0, ScopeRead] @ post,
               res))
   \<and> (\<exists>j\<le>20. scope_wait (\<lambda>k. 0) 0 double_two = Some j)"
proof -
  have "compiler_status awg_session_example 2 \<noteq> - 1"
    "\<forall>j<2. compiler_status awg_session_example j = - 1"
    "compiler_status awg_session_example (2 + 1) \<noteq> 1"
    "\<not> awg_progress awg_session_example (2 * 1) < 1"
    "\<forall>j<1. awg_progress awg_session_example (2 * j) < 1"
    "\<forall>j. scope_progress awg_session_example j < 1"
    by (simp_all add: awg_session_example_def)
  with example_setup [of "\<lambda>x. ''0.0''"] show ?thesis
    by (rule C5_scope_read_timeout)
qed

subsection \<open>Comparison of the measured and the expected signal\<close>

































section \<open>Synchronization before dependent reads\<close>

lemma sync_before_read_append:
  "sync_before_read p (xs @ ys) =
     (sync_before_read p xs \<and> sync_before_read (pending_after p xs) ys)"
  by (induction xs arbitrary: p) auto

lemma pending_after_append:
  "pending_after p (xs @ ys) = pending_after (pending_after p xs) ys"
  by (induction xs arbitrary: p) auto

lemma no_dependent_read_ok:
  assumes "\<forall>c\<in>set tr. \<not> is_dependent_read c"
  shows "sync_before_read p tr"
  using assms by (induction tr arbitrary: p) auto

lemma polling_keeps_pending:
  assumes "\<forall>c\<in>set tr. \<not> is_config_write c \<and> c \<noteq> DaqSync"
  shows "pending_after p tr = p"
  using assms by (induction tr arbitrary: p) auto

lemma compile_wait_trace_polls:
  "c \<in> set (compile_wait_trace k) \<Longrightarrow>
     \<not> is_config_write c \<and> c \<noteq> DaqSync \<and> \<not> is_dependent_read c"
  by (auto simp: compile_wait_trace_def split: if_splits)

lemma upload_wait_trace_polls:
  "c \<in> set (upload_wait_trace progress i) \<Longrightarrow>
     \<not> is_config_write c \<and> c \<noteq> DaqSync \<and> \<not> is_dependent_read c"
  by (auto simp: upload_wait_trace_def split: if_splits)

lemma scope_wait_trace_polls:
  "c \<in> set (scope_wait_trace k) \<Longrightarrow>
     \<not> is_config_write c \<and> c \<noteq> DaqSync \<and> \<not> is_dependent_read c"
  by (auto simp: scope_wait_trace_def split: if_splits)

lemma awg_compile_polls:
  assumes "awg_compile s = Some (tr2, r)" "c \<in> set tr2"
  shows "\<not> is_config_write c \<and> c \<noteq> DaqSync \<and> \<not> is_dependent_read c"
  using assms
  by (auto simp: awg_compile_def Let_def split: option.splits if_splits
      dest: compile_wait_trace_polls upload_wait_trace_polls)

lemma awg_setup_sync:
  "sync_before_read False (fst (awg_setup str_float device_id s))"
  by (simp add: awg_setup_def Let_def split: sum.splits option.splits prod.splits)

lemma awg_setup_pending:
  "snd (awg_setup str_float device_id s) = Inr device \<Longrightarrow>
     pending_after False (fst (awg_setup str_float device_id s)) = False"
  by (simp add: awg_setup_def Let_def split: sum.splits option.splits prod.splits if_splits)

lemma check_correlation_no_read:
  "check_correlation do_plot ym ye = (tr, r) \<Longrightarrow> c \<in> set tr \<Longrightarrow> \<not> is_dependent_read c"
  by (auto simp: check_correlation_def Let_def split: sum.splits if_splits)

lemma awg_read_and_check_no_read:
  "c \<in> set (fst (awg_read_and_check do_plot device s)) \<Longrightarrow> \<not> is_dependent_read c"
  by (auto simp: awg_read_and_check_def Let_def
      split: option.splits sum.splits prod.splits if_splits
      dest: check_correlation_no_read)


lemma connect_config_sync:
  "sync_before_read False (fst (run_example_connect_config device_id amplitude s))"
  by (simp add: run_example_connect_config_def add_R_phi_def Let_def sync_before_read_append
      split: sum.splits option.splits prod.splits)

lemma connect_config_sample_after_sync:
  assumes "cc_api_session s = Inr (device, options, devicetype)"
    and "cc_version_check s = None"
    and "cc_mixer_channel s = Inr m"
  shows "\<exists>pre post. fst (run_example_connect_config device_id amplitude s) =
           pre @ [DaqSync, DaqGetSample (''/'' @ device @ ''/demods/'' @ str_nat 0 @ ''/sample'')]
             @ post"
proof -
  let ?pre = "[CreateApiSession device_id 6, ApiServerVersionCheck,
               DaqSet (cc_general_setting device options), DaqSync,
               DaqSet (cc_exp_setting device devicetype m amplitude),
               Sleep (10 * (1 / 1000000))]"
  have "fst (run_example_connect_config device_id amplitude s) =
          ?pre @ [DaqSync, DaqGetSample (''/'' @ device @ ''/demods/'' @ str_nat 0 @ ''/sample'')]
            @ fst (add_R_phi (cc_sample s))"
    using assms by (simp add: run_example_connect_config_def Let_def split_def)
  then show ?thesis by blast
qed

lemma awg_tail_sync:
  "sync_before_read False
     (awg_replace_waveform device @ awg_scope_config device @ scope_wait_trace k
        @ fst (awg_read_and_check do_plot device s))"
proof -
  have "sync_before_read p
          (awg_scope_config device @ scope_wait_trace k @ fst (awg_read_and_check do_plot device s))"
    for p
  proof (rule no_dependent_read_ok, rule ballI)
    fix c
    assume "c \<in> set (awg_scope_config device @ scope_wait_trace k
                       @ fst (awg_read_and_check do_plot device s))"
    then consider "c \<in> set (awg_scope_config device)" | "c \<in> set (scope_wait_trace k)"
      | "c \<in> set (fst (awg_read_and_check do_plot device s))" by auto
    then show "\<not> is_dependent_read c"
    proof cases
      case 1
      then show ?thesis by (auto simp: awg_scope_config_def Let_def)
    next
      case 2
      then show ?thesis by (simp add: scope_wait_trace_polls)
    next
      case 3
      then show ?thesis by (rule awg_read_and_check_no_read)
    qed
  qed
  then show ?thesis
    by (simp add: awg_replace_waveform_def Let_def)
qed

lemma awg_run_sync:
  assumes "run_example_awg str_float device_id do_plot s = Some (tr, res)"
  shows "sync_before_read False tr"
proof (cases "snd (awg_setup str_float device_id s)")
  case (Inl e)
  then have fail: "awg_setup str_float device_id s = (fst (awg_setup str_float device_id s), Inl e)"
    by (metis prod.collapse)
  have "run_example_awg str_float device_id do_plot s =
               Some (fst (awg_setup str_float device_id s), Inl e)"
    by (subst run_example_awg_def, subst fail) simp
  with assms have "tr = fst (awg_setup str_float device_id s)" by simp
  then show ?thesis by (simp only: awg_setup_sync)
next
  case (Inr device)
  note collapsed = awg_setup_collapse [OF Inr]
  let ?tr1 = "fst (awg_setup str_float device_id s)"
  have p1: "pending_after False ?tr1 = False" using Inr by (rule awg_setup_pending)
  show ?thesis
  proof (cases "awg_compile s")
    case None
    then have "run_example_awg str_float device_id do_plot s = None"
      by (subst run_example_awg_def, subst collapsed) simp
    with assms show ?thesis by simp
  next
    case (Some c)
    obtain tr2 r where c: "c = (tr2, r)" by (cases c)
    have polls: "\<forall>c\<in>set tr2. \<not> is_config_write c \<and> c \<noteq> DaqSync \<and> \<not> is_dependent_read c"
      using awg_compile_polls Some c by blast
    then have s2: "sync_before_read False tr2" by (intro no_dependent_read_ok) blast
    from polls have p2: "pending_after False tr2 = False"
      by (intro polling_keeps_pending) blast
    show ?thesis
    proof (cases r)
      case (Inl e)
      then have "run_example_awg str_float device_id do_plot s = Some (?tr1 @ tr2, Inl e)"
        using Some c by (subst run_example_awg_def, subst collapsed) simp
      with assms show ?thesis
        by (auto simp: sync_before_read_append awg_setup_sync p1 s2)
    next
      case (Inr u)
      show ?thesis
      proof (cases "scope_wait (scope_progress s) 0 double_two")
        case None
        then have "run_example_awg str_float device_id do_plot s = None"
          using Some c Inr by (subst run_example_awg_def, subst collapsed) simp
        with assms show ?thesis by simp
      next
        case (Some k)
        then have "run_example_awg str_float device_id do_plot s =
            Some (?tr1 @ tr2 @ awg_replace_waveform device @ awg_scope_config device
                    @ scope_wait_trace k @ fst (awg_read_and_check do_plot device s),
                  snd (awg_read_and_check do_plot device s))"
          using \<open>awg_compile s = Some c\<close> c Inr
          by (subst run_example_awg_def, subst collapsed) (simp add: split_def)
        with assms have "tr = ?tr1 @ tr2 @ (awg_replace_waveform device @ awg_scope_config device
                    @ scope_wait_trace k @ fst (awg_read_and_check do_plot device s))"
          by simp
        then show ?thesis
          using awg_tail_sync [of device k do_plot s]
          by (simp only: sync_before_read_append pending_after_append awg_setup_sync p1 s2 p2)
      qed
    qed
  qed
qed

lemma awg_run_reaches_read:
  assumes "snd (awg_setup str_float device_id s) = Inr device"
    and "compiler_status s r \<noteq> - 1"
    and "\<forall>j<r. compiler_status s j = - 1"
    and "compiler_status s (r + 1) \<noteq> 1"
    and "\<not> awg_progress s (2 * i) < 1"
    and "\<forall>j<i. awg_progress s (2 * j) < 1"
  shows "\<exists>pre post res. run_example_awg str_float device_id do_plot s =
           Some (pre @ awg_replace_waveform device @ post, res)"
proof -
  have w: "compile_wait (compiler_status s) 0 = Some r"
    using assms(2,3) by (intro compile_wait_first) auto
  have u: "upload_wait (awg_progress s) 0 = Some i"
    using assms(5,6) by (intro upload_wait_first) auto
  obtain tr2 where c: "awg_compile s = Some (tr2, Inr ())"
    using w u assms(4) by (simp add: awg_compile_def Let_def)
  obtain k where k: "scope_wait (scope_progress s) 0 double_two = Some k"
    using scope_wait_at_most_20 by blast
  have "run_example_awg str_float device_id do_plot s =
          Some ((fst (awg_setup str_float device_id s) @ tr2) @ awg_replace_waveform device
                  @ (awg_scope_config device @ scope_wait_trace k
                       @ fst (awg_read_and_check do_plot device s)),
                snd (awg_read_and_check do_plot device s))"
    by (subst run_example_awg_def, subst awg_setup_collapse [OF assms(1)])
       (simp add: c k split_def)
  then show ?thesis by blast
qed

text \<open>
  C7.  In the trace of the demodulator example, and in the trace of every run of the
  AWG example that returns (normally or with an exception), no dependent read is issued
  while a configuration write is still waiting for its \<open>daq.sync()\<close>.  In the demodulator
  example \<open>getSample\<close> directly follows a \<open>daq.sync()\<close>; in the AWG example the waveform
  index is set, then \<open>daq.sync()\<close> is called, then the waveform is written.
\<close>

theorem C7_sync_before_dependent_read:
  "sync_before_read False (fst (run_example_connect_config device_id amplitude s))
   \<and> (cc_api_session s = Inr (device, options, devicetype) \<and> cc_version_check s = None
        \<and> cc_mixer_channel s = Inr m \<longrightarrow>
       (\<exists>pre post. fst (run_example_connect_config device_id amplitude s) =
          pre @ [DaqSync, DaqGetSample (''/'' @ device @ ''/demods/'' @ str_nat 0 @ ''/sample'')]
            @ post))
   \<and> (run_example_awg str_float awg_id do_plot a = Some (tr, res) \<longrightarrow> sync_before_read False tr)
   \<and> awg_replace_waveform awg_device =
        [DaqSetInt (''/'' @ awg_device @ ''/awgs/0/waveform/index'') 2,
         DaqSync,
         DaqVectorWrite (''/'' @ awg_device @ ''/awgs/0/waveform/data'') waveform_3]"
  using connect_config_sync connect_config_sample_after_sync awg_run_sync
  by (simp add: awg_replace_waveform_def Let_def)


theorem C7_sync_before_dependent_read_witness:
  "sync_before_read False (fst (run_example_connect_config ''dev2006'' (1 / 10) cc_session_example))
   \<and> (\<exists>pre post. fst (run_example_connect_config ''dev2006'' (1 / 10) cc_session_example) =
          pre @ [DaqSync, DaqGetSample (''/'' @ ''dev2006'' @ ''/demods/'' @ str_nat 0 @ ''/sample'')]
            @ post)
   \<and> (\<exists>tr res. run_example_awg (\<lambda>x. ''0.0'') ''dev2006'' False awg_session_example = Some (tr, res)
          \<and> sync_before_read False tr
          \<and> (\<exists>pre post. tr = pre @ awg_replace_waveform ''dev2006'' @ post))"
proof -
  have "compiler_status awg_session_example 2 \<noteq> - 1"
    "\<forall>j<2. compiler_status awg_session_example j = - 1"
    "compiler_status awg_session_example (2 + 1) \<noteq> 1"
    "\<not> awg_progress awg_session_example (2 * 1) < 1"
    "\<forall>j<1. awg_progress awg_session_example (2 * j) < 1"
    by (simp_all add: awg_session_example_def)
  with example_setup [of "\<lambda>x. ''0.0''"]
  have "\<exists>pre post res. run_example_awg (\<lambda>x. ''0.0'') ''dev2006'' False awg_session_example =
           Some (pre @ awg_replace_waveform ''dev2006'' @ post, res)"
    by (rule awg_run_reaches_read)
  then obtain pre post res where
    run: "run_example_awg (\<lambda>x. ''0.0'') ''dev2006'' False awg_session_example =
            Some (pre @ awg_replace_waveform ''dev2006'' @ post, res)"
    by blast
  have cc: "cc_api_session cc_session_example = Inr (''dev2006'', [], ''UHFLI'')
      \<and> cc_version_check cc_session_example = None \<and> cc_mixer_channel cc_session_example = Inr 3"
    by (simp add: cc_session_example_def)
  from C7_sync_before_dependent_read [of "''dev2006''" "1 / 10" cc_session_example "''dev2006''"
      "[]" "''UHFLI''" 3 "\<lambda>x. ''0.0''" "''dev2006''" False awg_session_example
      "pre @ awg_replace_waveform ''dev2006'' @ post" res]
  show ?thesis using run cc by blast
qed

end
